theory Spec2Isabelle
  imports Complex_Main "HOL-Library.AList"
begin

section \<open>JavaScript values\<close>

text \<open>
  The repository is TypeScript; most payloads have type \<open>any\<close>. A value is \<open>undefined\<close>,
  \<open>null\<close>, a boolean, a number, a string, an array, or an object. Numbers are IEEE
  doubles; a finite double is represented by its exact rational value, and \<open>NaN\<close> and the
  infinities are separate constructors.

  \<open>Obj ps\<close> is an ordinary object, as an object literal or \<open>JSON.parse\<close> makes it: its
  prototype is \<open>Object.prototype\<close> and \<open>ps\<close> lists its own properties in insertion order.
  \<open>Proto p ps\<close> is an object with the own properties \<open>ps\<close> whose prototype is \<open>p\<close>,
  \<open>null\<close> or another object, as \<open>Object.create(p)\<close> makes it. \<open>Arr xs\<close> is an array with
  the elements \<open>xs\<close>; its prototype is \<open>Array.prototype\<close>. \<open>Native n\<close> is an object of the
  engine, named \<open>n\<close>: a built-in function or one of the built-in prototype objects.
\<close>

datatype jsnum = NaN | PosInf | NegInf | Fin rat

datatype jsval =
    Undefined
  | Null
  | Bool bool
  | Num jsnum
  | Str string
  | Arr "jsval list"
  | Obj "(string \<times> jsval) list"
  | Proto jsval "(string \<times> jsval) list"
  | Native string

text \<open>Every \<open>throw\<close> of the source and every runtime exception is a value of this type.\<close>

datatype error =
    TypeError string
  | Error string
  | Rejected string

text \<open>
  What a property lookup finds: a data property with its value and whether it is
  writable, or the accessor \<open>__proto__\<close> of \<open>Object.prototype\<close>.
\<close>

datatype property = Data jsval bool | ProtoAccessor

section \<open>Built-in operations of the language\<close>

text \<open>
  The conversions \<open>String(v)\<close> and \<open>Number(v)\<close> (which throw on some objects),
  \<open>JSON.stringify\<close> and \<open>JSON.parse\<close>, the iteration of an object that is neither an array
  nor a string, and the make-up of the engine's own objects belong to the language, not
  to the repository. They are parameters of the model:
  \<open>native_lookup n key\<close> is what the lookup of \<open>key\<close> finds on the engine object \<open>n\<close>,
  along its prototype chain; \<open>native_prototype n\<close> is its prototype;
  \<open>native_callable n\<close> tells a function from an object; \<open>native_isArray n\<close> is
  \<open>Array.isArray\<close> of it. What the language fixes and the code relies on is written out:
  \<open>String\<close> returns a string argument unchanged, \<open>Number\<close> a number argument, and
  \<open>Object.prototype\<close> has the members listed in \<open>Object_prototype\<close>.
\<close>

record builtins =
  ToString :: "jsval \<Rightarrow> error + string"
  ToNumber :: "jsval \<Rightarrow> error + jsnum"
  stringify :: "jsval \<Rightarrow> jsval"
  parse :: "jsval \<Rightarrow> error + jsval"
  iterator :: "jsval \<Rightarrow> error + jsval list"
  native_lookup :: "string \<Rightarrow> string \<Rightarrow> property option"
  native_prototype :: "string \<Rightarrow> jsval"
  native_callable :: "string \<Rightarrow> bool"
  native_isArray :: "string \<Rightarrow> bool"

definition js_String :: "builtins \<Rightarrow> jsval \<Rightarrow> error + string" where
  "js_String B v = (case v of Str s \<Rightarrow> Inr s | _ \<Rightarrow> ToString B v)"

definition js_Number :: "builtins \<Rightarrow> jsval \<Rightarrow> error + jsnum" where
  "js_Number B v = (case v of Num n \<Rightarrow> Inr n | _ \<Rightarrow> ToNumber B v)"

text \<open>\<open>Boolean(v)\<close>, the truthiness of a value.\<close>

fun js_Boolean :: "jsval \<Rightarrow> bool" where
  "js_Boolean Undefined = False"
| "js_Boolean Null = False"
| "js_Boolean (Bool b) = b"
| "js_Boolean (Num n) = (n \<noteq> NaN \<and> n \<noteq> Fin 0)"
| "js_Boolean (Str s) = (s \<noteq> [])"
| "js_Boolean (Arr xs) = True"
| "js_Boolean (Obj ps) = True"
| "js_Boolean (Proto p ps) = True"
| "js_Boolean (Native n) = True"

text \<open>\<open>typeof v === 'object'\<close> (true of \<open>null\<close>), \<open>typeof v === 'string'\<close>, \<open>Array.isArray(v)\<close>.\<close>

fun typeof_object :: "builtins \<Rightarrow> jsval \<Rightarrow> bool" where
  "typeof_object B Null = True"
| "typeof_object B (Arr xs) = True"
| "typeof_object B (Obj ps) = True"
| "typeof_object B (Proto p ps) = True"
| "typeof_object B (Native n) = (\<not> native_callable B n)"
| "typeof_object B v = False"

fun typeof_string :: "jsval \<Rightarrow> bool" where
  "typeof_string (Str s) = True"
| "typeof_string v = False"

fun isArray :: "builtins \<Rightarrow> jsval \<Rightarrow> bool" where
  "isArray B (Arr xs) = True"
| "isArray B (Native n) = native_isArray B n"
| "isArray B v = False"

text \<open>Whether a value is an object (and not a primitive value, \<open>undefined\<close> or \<open>null\<close>).\<close>

fun is_object :: "jsval \<Rightarrow> bool" where
  "is_object (Arr xs) = True"
| "is_object (Obj ps) = True"
| "is_object (Proto p ps) = True"
| "is_object (Native n) = True"
| "is_object v = False"

text \<open>The decimal numeral of an array index.\<close>

fun show_nat :: "nat \<Rightarrow> string" where
  "show_nat n = (if n < 10 then [char_of (48 + n)]
                 else show_nat (n div 10) @ [char_of (48 + n mod 10)])"

text \<open>
  The own properties of a value: those of an object; the indices and \<open>length\<close> of an
  array or a string. The own properties of an engine object are answered by
  \<open>native_lookup\<close>.
\<close>

fun own_properties :: "jsval \<Rightarrow> (string \<times> jsval) list" where
  "own_properties (Obj ps) = ps"
| "own_properties (Proto p ps) = ps"
| "own_properties (Arr xs) =
     zip (map show_nat [0..<length xs]) xs @ [(''length'', Num (Fin (of_nat (length xs))))]"
| "own_properties (Str s) =
     zip (map show_nat [0..<length s]) (map (\<lambda>c. Str [c]) s)
     @ [(''length'', Num (Fin (of_nat (length s))))]"
| "own_properties v = []"

text \<open>
  The members of \<open>Object.prototype\<close>: the accessor \<open>__proto__\<close> and eleven writable
  methods, each an engine object.
\<close>

definition Object_prototype :: "string \<Rightarrow> property option" where
  "Object_prototype key =
     (if key = ''__proto__'' then Some ProtoAccessor
      else if key \<in> set [''constructor'', ''hasOwnProperty'', ''isPrototypeOf'',
                          ''propertyIsEnumerable'', ''toLocaleString'', ''toString'',
                          ''valueOf'', ''__defineGetter__'', ''__defineSetter__'',
                          ''__lookupGetter__'', ''__lookupSetter__'']
      then Some (Data (Native (''Object.prototype.'' @ key)) True)
      else None)"

text \<open>
  The lookup of a property: the own properties of the value, then its prototype chain. An
  own property of an object or an array is writable, a character or the length of a
  string is not. A primitive value is looked up on the prototype of its wrapper.
\<close>

fun find_member :: "builtins \<Rightarrow> jsval \<Rightarrow> string \<Rightarrow> property option" where
  "find_member B (Obj ps) key =
     (case map_of ps key of Some x \<Rightarrow> Some (Data x True) | None \<Rightarrow> Object_prototype key)"
| "find_member B (Proto p ps) key =
     (case map_of ps key of Some x \<Rightarrow> Some (Data x True) | None \<Rightarrow> find_member B p key)"
| "find_member B (Arr xs) key =
     (case map_of (own_properties (Arr xs)) key of
        Some x \<Rightarrow> Some (Data x True)
      | None \<Rightarrow> native_lookup B ''Array.prototype'' key)"
| "find_member B (Native n) key =
     (if n = ''Object.prototype'' then Object_prototype key else native_lookup B n key)"
| "find_member B (Str s) key =
     (case map_of (own_properties (Str s)) key of
        Some x \<Rightarrow> Some (Data x False)
      | None \<Rightarrow> native_lookup B ''String.prototype'' key)"
| "find_member B (Num n) key = native_lookup B ''Number.prototype'' key"
| "find_member B (Bool b) key = native_lookup B ''Boolean.prototype'' key"
| "find_member B Undefined key = None"
| "find_member B Null key = None"

text \<open>The prototype of a value, which the getter of \<open>__proto__\<close> returns.\<close>

fun prototype_of :: "builtins \<Rightarrow> jsval \<Rightarrow> jsval" where
  "prototype_of B (Obj ps) = Native ''Object.prototype''"
| "prototype_of B (Proto p ps) = p"
| "prototype_of B (Arr xs) = Native ''Array.prototype''"
| "prototype_of B (Native n) =
     (if n = ''Object.prototype'' then Null else native_prototype B n)"
| "prototype_of B (Str s) = Native ''String.prototype''"
| "prototype_of B (Num n) = Native ''Number.prototype''"
| "prototype_of B (Bool b) = Native ''Boolean.prototype''"
| "prototype_of B v = Null"

text \<open>
  \<open>key in data\<close>: true when the lookup finds the key on \<open>data\<close> or on its prototype
  chain; a \<open>TypeError\<close> when \<open>data\<close> is not an object.
\<close>

definition js_in :: "builtins \<Rightarrow> string \<Rightarrow> jsval \<Rightarrow> error + bool" where
  "js_in B key data =
     (if is_object data then Inr (find_member B data key \<noteq> None)
      else Inl (TypeError ''Cannot use in operator''))"

text \<open>
  \<open>data[key]\<close> on a value that is neither \<open>undefined\<close> nor \<open>null\<close>: the value of the
  property the lookup finds, own or inherited.
\<close>

definition js_get :: "builtins \<Rightarrow> jsval \<Rightarrow> string \<Rightarrow> jsval" where
  "js_get B data key =
     (case find_member B data key of
        None \<Rightarrow> Undefined
      | Some (Data x w) \<Rightarrow> x
      | Some ProtoAccessor \<Rightarrow> prototype_of B data)"

text \<open>\<open>v.key\<close>: a \<open>TypeError\<close> when \<open>v\<close> is \<open>undefined\<close> or \<open>null\<close>.\<close>

fun member :: "builtins \<Rightarrow> jsval \<Rightarrow> string \<Rightarrow> error + jsval" where
  "member B Undefined key = Inl (TypeError ''Cannot read properties of undefined'')"
| "member B Null key = Inl (TypeError ''Cannot read properties of null'')"
| "member B v key = Inr (js_get B v key)"

text \<open>
  \<open>target[key] = v\<close> in strict code (a class body is strict), on an object that the code
  made as \<open>{}\<close>; the object is given by its prototype \<open>p\<close> and its own properties \<open>ps\<close>. An
  own property is overwritten. Otherwise the prototype chain decides: the setter of
  \<open>__proto__\<close> replaces the prototype when \<open>v\<close> is an object or \<open>null\<close> and does nothing
  else; an inherited property that is not writable makes the assignment throw; in every
  other case the object gets a new own property.
\<close>

definition assign_property ::
  "builtins \<Rightarrow> jsval \<times> (string \<times> jsval) list \<Rightarrow> string \<Rightarrow> jsval
   \<Rightarrow> error + jsval \<times> (string \<times> jsval) list" where
  "assign_property B target key v =
     (let p = fst target; ps = snd target in
      if key \<in> fst ` set ps then Inr (p, AList.update key v ps)
      else case find_member B p key of
             None \<Rightarrow> Inr (p, AList.update key v ps)
           | Some (Data x w) \<Rightarrow>
               if w then Inr (p, AList.update key v ps)
               else Inl (TypeError ''Cannot assign to read only property'')
           | Some ProtoAccessor \<Rightarrow>
               if is_object v \<or> v = Null then Inr (v, ps) else Inr (p, ps))"

text \<open>The object with a prototype and own properties; \<open>{}\<close> is \<open>empty_object\<close>.\<close>

definition make_object :: "jsval \<times> (string \<times> jsval) list \<Rightarrow> jsval" where
  "make_object target =
     (if fst target = Native ''Object.prototype'' then Obj (snd target)
      else Proto (fst target) (snd target))"

definition empty_object :: "jsval \<times> (string \<times> jsval) list" where
  "empty_object = (Native ''Object.prototype'', [])"

text \<open>
  The own enumerable properties that \<open>{ ...v }\<close> copies, and the definition of a list of
  properties on an object literal in order (a later one replaces an earlier one in its
  place; a spread defines properties and runs no setter).
\<close>

fun spread :: "jsval \<Rightarrow> (string \<times> jsval) list" where
  "spread (Obj ps) = ps"
| "spread (Proto p ps) = ps"
| "spread (Arr xs) = zip (map show_nat [0..<length xs]) xs"
| "spread (Str s) = zip (map show_nat [0..<length s]) (map (\<lambda>c. Str [c]) s)"
| "spread v = []"

definition assign :: "(string \<times> jsval) list \<Rightarrow> (string \<times> jsval) list \<Rightarrow> (string \<times> jsval) list" where
  "assign target ps = fold (\<lambda>e acc. AList.update (fst e) (snd e) acc) ps target"

text \<open>
  Division of two array lengths, as \<open>a.length / b.length\<close>: \<open>NaN\<close> for \<open>0 / 0\<close>,
  \<open>Infinity\<close> for a positive length over \<open>0\<close>. The comparison \<open>x > y\<close> of two numbers is
  false when either is \<open>NaN\<close>.
\<close>

definition js_div :: "nat \<Rightarrow> nat \<Rightarrow> jsnum" where
  "js_div a b = (if b = 0 then (if a = 0 then NaN else PosInf) else Fin (of_nat a / of_nat b))"

fun js_gt :: "jsnum \<Rightarrow> jsnum \<Rightarrow> bool" where
  "js_gt NaN y = False"
| "js_gt x NaN = False"
| "js_gt PosInf y = (y \<noteq> PosInf)"
| "js_gt x PosInf = False"
| "js_gt NegInf y = False"
| "js_gt (Fin a) NegInf = True"
| "js_gt (Fin a) (Fin b) = (b < a)"

section \<open>SyncManager (src/core/Component.ts, second document)\<close>

subsection \<open>PriorityQueue\<close>

datatype SyncPriority = Low | Normal | High

fun priorityValues :: "SyncPriority \<Rightarrow> int" where
  "priorityValues Low = 0"
| "priorityValues Normal = 1"
| "priorityValues High = 2"

text \<open>
  \<open>elements: { priority, value }[]\<close>: a list of pairs. \<open>Array.prototype.sort\<close> with the
  comparator \<open>priorityValues[a.priority] - priorityValues[b.priority]\<close> is a stable
  ascending sort on \<open>priorityValues\<close>; \<open>sort_key\<close> is the stable insertion sort.
\<close>

type_synonym 'a PriorityQueue = "(SyncPriority \<times> 'a) list"

definition sort_elements :: "'a PriorityQueue \<Rightarrow> 'a PriorityQueue" where
  "sort_elements es = sort_key (\<lambda>e. priorityValues (fst e)) es"

definition enqueue :: "'a \<Rightarrow> SyncPriority \<Rightarrow> 'a PriorityQueue \<Rightarrow> 'a PriorityQueue" where
  "enqueue v p es = sort_elements (es @ [(p, v)])"

text \<open>\<open>this.elements.shift()?.value\<close>: the head of the array, \<open>undefined\<close> when empty.\<close>

definition dequeue :: "'a PriorityQueue \<Rightarrow> 'a option \<times> 'a PriorityQueue" where
  "dequeue es = (case es of [] \<Rightarrow> (None, []) | e # rest \<Rightarrow> (Some (snd e), rest))"

text \<open>\<open>findIndex\<close> gives the first element holding the value; only that one is changed.\<close>

fun set_first_priority :: "'a \<Rightarrow> SyncPriority \<Rightarrow> 'a PriorityQueue \<Rightarrow> 'a PriorityQueue" where
  "set_first_priority v p [] = []"
| "set_first_priority v p (e # es) =
     (if snd e = v then (p, v) # es else e # set_first_priority v p es)"

definition updatePriority :: "'a \<Rightarrow> SyncPriority \<Rightarrow> 'a PriorityQueue \<Rightarrow> 'a PriorityQueue" where
  "updatePriority v p es =
     (if v \<in> snd ` set es then sort_elements (set_first_priority v p es) else es)"

definition remove :: "'a \<Rightarrow> 'a PriorityQueue \<Rightarrow> 'a PriorityQueue" where
  "remove v es = filter (\<lambda>e. snd e \<noteq> v) es"

definition isEmpty :: "'a PriorityQueue \<Rightarrow> bool" where
  "isEmpty es = (es = [])"

subsection \<open>State of a SyncManager\<close>

record SyncStatus =
  lastSyncTime :: nat
  pendingChanges :: int
  priority :: SyncPriority
  isPaused :: bool

datatype event =
    SyncStarted string SyncPriority
  | SyncStopped string
  | DataUpdated string jsval
  | SyncCompleted string SyncStatus
  | SyncError string error
  | SyncPaused string
  | SyncResumed string

text \<open>
  \<open>processSyncQueue\<close> and \<open>processPendingChanges\<close> are \<open>async\<close>: they run until an
  \<open>await\<close> on the store and are resumed when the store answers. \<open>isSyncing\<close> admits one
  running loop, so its continuation is one value: idle, or waiting for the answer to
  \<open>gunDataProvider.get(path)\<close> of \<open>processPendingChanges\<close> with the captured status
  object and the value of \<open>retries\<close>, or waiting for the read that
  \<open>DistributedState.update\<close> starts through \<open>DistributedState.get\<close>.
\<close>

datatype continuation =
    Idle
  | AwaitFetch string nat nat
  | AwaitStateGet string nat nat

text \<open>
  \<open>SyncStatus\<close> objects are shared by reference between the \<open>syncStatus\<close> map and the
  local variable \<open>status\<close> of a suspended \<open>processPendingChanges\<close>; \<open>heap\<close> holds the
  objects and the map holds indices into it. \<open>listeners\<close> counts the callbacks that
  \<open>startSync\<close> registered through \<open>onUpdate\<close>, \<open>emitted\<close> is the trace of \<open>emit\<close> calls,
  \<open>fetches\<close> the trace of \<open>gunDataProvider.get\<close> calls, \<open>now\<close> the value of \<open>Date.now()\<close>.
\<close>

definition maxRetries :: nat where
  "maxRetries = 3"

record manager =
  heap :: "SyncStatus list"
  syncStatus :: "string \<rightharpoonup> nat"
  distributedStates :: "string set"
  syncQueue :: "string PriorityQueue"
  isSyncing :: bool
  pending :: continuation
  listeners :: "string \<Rightarrow> nat"
  emitted :: "event list"
  fetches :: "string list"
  now :: nat

definition init :: "string set \<Rightarrow> manager" where
  "init bound =
     \<lparr> heap = [], syncStatus = Map.empty, distributedStates = bound, syncQueue = [],
       isSyncing = False, pending = Idle, listeners = (\<lambda>_. 0),
       emitted = [], fetches = [], now = 0 \<rparr>"

subsection \<open>The drain loop\<close>

text \<open>
  The body of \<open>while (!this.syncQueue.isEmpty())\<close> from the loop test on. A dequeued
  path that is falsy (the empty string) is skipped by \<open>if (path)\<close>; a path without a
  status makes \<open>processPendingChanges\<close> return at once. Otherwise the first
  \<open>gunDataProvider.get(path)\<close> is issued and the loop is suspended. When the queue is
  empty the loop ends with \<open>isSyncing = false\<close>. The two equations are the two
  outcomes of \<open>isEmpty\<close>; the second takes the head as \<open>dequeue\<close> does.
\<close>

fun drain :: "string PriorityQueue \<Rightarrow> manager \<Rightarrow> manager" where
  "drain [] s = s\<lparr>syncQueue := [], isSyncing := False, pending := Idle\<rparr>"
| "drain (e # rest) s =
     (if snd e = [] then drain rest s
      else case syncStatus s (snd e) of
             None \<Rightarrow> drain rest s
           | Some r \<Rightarrow>
               if 0 < maxRetries
               then s\<lparr>syncQueue := rest, pending := AwaitFetch (snd e) r 0,
                      fetches := fetches s @ [snd e]\<rparr>
               else drain rest s)"

definition processSyncQueue :: "manager \<Rightarrow> manager" where
  "processSyncQueue s =
     (if isSyncing s then s else drain (syncQueue s) (s\<lparr>isSyncing := True\<rparr>))"

text \<open>The \<open>try\<close> block of \<open>processPendingChanges\<close> after a successful fetch and update.\<close>

definition attempt_succeeded :: "string \<Rightarrow> nat \<Rightarrow> manager \<Rightarrow> manager" where
  "attempt_succeeded path r s =
     (let status = (heap s ! r)\<lparr>pendingChanges := pendingChanges (heap s ! r) - 1,
                                 lastSyncTime := now s\<rparr>;
          s1 = s\<lparr>heap := (heap s)[r := status],
                 syncStatus := (syncStatus s)(path \<mapsto> r),
                 emitted := emitted s @ [SyncCompleted path status]\<rparr>
      in drain (syncQueue s1) s1)"

text \<open>
  The \<open>catch\<close> block: \<open>retries++\<close>, the sync-error event once \<open>retries >= maxRetries\<close>,
  then the test of \<open>while (retries < this.maxRetries)\<close>: another attempt, or return to
  the drain loop.
\<close>

definition attempt_failed :: "string \<Rightarrow> nat \<Rightarrow> nat \<Rightarrow> error \<Rightarrow> manager \<Rightarrow> manager" where
  "attempt_failed path r retries err s =
     (let retries' = retries + 1;
          s1 = (if retries' \<ge> maxRetries
                then s\<lparr>emitted := emitted s @ [SyncError path err]\<rparr> else s)
      in if retries' < maxRetries
         then s1\<lparr>pending := AwaitFetch path r retries', fetches := fetches s1 @ [path]\<rparr>
         else drain (syncQueue s1) s1)"

text \<open>
  The store answers the read the loop is waiting for. After the first read of an
  attempt, a path with a bound \<open>DistributedState\<close> continues with \<open>state.update(data)\<close>,
  whose first step is the read of \<open>DistributedState.get\<close>. \<open>update\<close> then calls its
  argument as a function; the argument is the fetched data, which is no function, so the
  call throws a \<open>TypeError\<close> whatever the second read returned.
\<close>

definition fetchDone :: "error + jsval \<Rightarrow> manager \<Rightarrow> manager" where
  "fetchDone res s =
     (case pending s of
        Idle \<Rightarrow> s
      | AwaitFetch path r retries \<Rightarrow>
          (case res of
             Inl err \<Rightarrow> attempt_failed path r retries err s
           | Inr data \<Rightarrow>
               if path \<in> distributedStates s
               then s\<lparr>pending := AwaitStateGet path r retries, fetches := fetches s @ [path]\<rparr>
               else attempt_succeeded path r s)
      | AwaitStateGet path r retries \<Rightarrow>
          (case res of
             Inl err \<Rightarrow> attempt_failed path r retries err s
           | Inr data \<Rightarrow>
               attempt_failed path r retries (TypeError ''updater is not a function'') s))"

subsection \<open>The public operations\<close>

definition startSync :: "string \<Rightarrow> SyncPriority \<Rightarrow> manager \<Rightarrow> manager" where
  "startSync path prio s =
     (if syncStatus s path \<noteq> None then s
      else processSyncQueue
        (s\<lparr>heap := heap s @ [\<lparr>lastSyncTime = now s, pendingChanges = 0,
                               priority = prio, isPaused = False\<rparr>],
           syncStatus := (syncStatus s)(path \<mapsto> length (heap s)),
           syncQueue := enqueue path prio (syncQueue s),
           listeners := (listeners s)(path := Suc (listeners s path)),
           emitted := emitted s @ [SyncStarted path prio]\<rparr>))"

text \<open>
  \<open>offUpdate\<close> is called with a fresh \<open>bind\<close> of \<open>handleUpdate\<close> on a fresh \<open>GunNode\<close>,
  which removes no registered callback: \<open>listeners\<close> is unchanged.
\<close>

definition stopSync :: "string \<Rightarrow> manager \<Rightarrow> manager" where
  "stopSync path s =
     (if syncStatus s path = None then s
      else s\<lparr>syncStatus := (syncStatus s)(path := None),
             syncQueue := remove path (syncQueue s),
             emitted := emitted s @ [SyncStopped path]\<rparr>)"

definition handleUpdate :: "string \<Rightarrow> jsval \<Rightarrow> manager \<Rightarrow> manager" where
  "handleUpdate path data s =
     (case syncStatus s path of
        None \<Rightarrow> s
      | Some r \<Rightarrow>
          if isPaused (heap s ! r) then s
          else let status = (heap s ! r)\<lparr>lastSyncTime := now s,
                                          pendingChanges := pendingChanges (heap s ! r) + 1\<rparr>
               in processSyncQueue
                    (s\<lparr>heap := (heap s)[r := status],
                       emitted := emitted s @ [DataUpdated path data],
                       syncQueue := updatePriority path (priority status) (syncQueue s)\<rparr>))"

definition pauseSync :: "string \<Rightarrow> manager \<Rightarrow> manager" where
  "pauseSync path s =
     (case syncStatus s path of
        None \<Rightarrow> s
      | Some r \<Rightarrow> s\<lparr>heap := (heap s)[r := (heap s ! r)\<lparr>isPaused := True\<rparr>],
                    emitted := emitted s @ [SyncPaused path]\<rparr>)"

definition resumeSync :: "string \<Rightarrow> manager \<Rightarrow> manager" where
  "resumeSync path s =
     (case syncStatus s path of
        None \<Rightarrow> s
      | Some r \<Rightarrow> s\<lparr>heap := (heap s)[r := (heap s ! r)\<lparr>isPaused := False\<rparr>],
                    emitted := emitted s @ [SyncResumed path]\<rparr>)"

text \<open>
  \<open>forceSync\<close> with the answer \<open>res\<close> of its own read, taken without another operation
  running between the call and the answer. It returns the error it throws, if any. With
  a bound \<open>DistributedState\<close> the call \<open>state.update(data)\<close> throws as in the drain loop.
\<close>

definition forceSync :: "string \<Rightarrow> error + jsval \<Rightarrow> manager \<Rightarrow> error option \<times> manager" where
  "forceSync path res s =
     (case syncStatus s path of
        None \<Rightarrow> (Some (Error ''Sync not started for path''), s)
      | Some r \<Rightarrow>
          let s0 = s\<lparr>fetches := fetches s @ [path]\<rparr> in
          (case res of
             Inl err \<Rightarrow> (Some err, s0\<lparr>emitted := emitted s0 @ [SyncError path err]\<rparr>)
           | Inr data \<Rightarrow>
               if path \<in> distributedStates s
               then (Some (TypeError ''updater is not a function''),
                     s0\<lparr>fetches := fetches s0 @ [path],
                        emitted := emitted s0 @
                          [SyncError path (TypeError ''updater is not a function'')]\<rparr>)
               else let status = (heap s ! r)\<lparr>lastSyncTime := now s, pendingChanges := 0\<rparr>
                    in (None, s0\<lparr>heap := (heap s)[r := status],
                                  emitted := emitted s0 @ [SyncCompleted path status]\<rparr>)))"

text \<open>
  One step of the environment or of a caller. \<open>RemoteUpdate\<close> is one change notification
  of the store for a path: every callback registered for the path runs \<open>handleUpdate\<close>.
  \<open>FetchDone\<close> is the store's answer to the read the drain loop waits for.
\<close>

datatype action =
    StartSync string SyncPriority
  | StopSync string
  | PauseSync string
  | ResumeSync string
  | RemoteUpdate string jsval
  | ForceSync string "error + jsval"
  | FetchDone "error + jsval"
  | Tick

fun step :: "action \<Rightarrow> manager \<Rightarrow> manager" where
  "step (StartSync p prio) s = startSync p prio s"
| "step (StopSync p) s = stopSync p s"
| "step (PauseSync p) s = pauseSync p s"
| "step (ResumeSync p) s = resumeSync p s"
| "step (RemoteUpdate p d) s = ((handleUpdate p d) ^^ (listeners s p)) s"
| "step (ForceSync p res) s = snd (forceSync p res s)"
| "step (FetchDone res) s = fetchDone res s"
| "step Tick s = s\<lparr>now := Suc (now s)\<rparr>"

definition run :: "action list \<Rightarrow> manager \<Rightarrow> manager" where
  "run acts s = fold step acts s"

text \<open>The paths whose reconciliation ended with success, in the order of the events.\<close>

fun completed :: "event list \<Rightarrow> string list" where
  "completed [] = []"
| "completed (SyncCompleted p st # es) = p # completed es"
| "completed (e # es) = completed es"

text \<open>\<open>getSyncStatus(path)\<close>: the status object the map holds for the path.\<close>

definition getSyncStatus :: "manager \<Rightarrow> string \<Rightarrow> SyncStatus option" where
  "getSyncStatus s path = map_option (\<lambda>r. heap s ! r) (syncStatus s path)"

text \<open>
  The manager after \<open>startSync(''b'')\<close>, \<open>startSync(''a'', prio)\<close> and \<open>k\<close> remote updates
  of \<open>''a''\<close>, while the read for \<open>''b''\<close> is still unanswered.
\<close>

definition after_updates :: "SyncPriority \<Rightarrow> jsval \<Rightarrow> nat \<Rightarrow> manager" where
  "after_updates prio d k =
     \<lparr> heap = [\<lparr>lastSyncTime = 0, pendingChanges = 0, priority = Normal, isPaused = False\<rparr>,
               \<lparr>lastSyncTime = 0, pendingChanges = int k, priority = prio, isPaused = False\<rparr>],
       syncStatus = [''b'' \<mapsto> 0, ''a'' \<mapsto> 1], distributedStates = {},
       syncQueue = [(prio, ''a'')], isSyncing = True, pending = AwaitFetch ''b'' 0 0,
       listeners = (\<lambda>_. 0)(''b'' := 1, ''a'' := 1),
       emitted = [SyncStarted ''b'' Normal, SyncStarted ''a'' prio]
                 @ replicate k (DataUpdated ''a'' d),
       fetches = [''b''], now = 0 \<rparr>"

text \<open>
  The manager in which \<open>''a''\<close> and \<open>''b''\<close> have been started and the loop, running, has
  not yet taken a path from the queue.
\<close>

definition two_watched :: manager where
  "two_watched =
     \<lparr> heap = [\<lparr>lastSyncTime = 0, pendingChanges = 0, priority = Normal, isPaused = False\<rparr>,
               \<lparr>lastSyncTime = 0, pendingChanges = 0, priority = Normal, isPaused = False\<rparr>],
       syncStatus = [''a'' \<mapsto> 0, ''b'' \<mapsto> 1], distributedStates = {},
       syncQueue = [], isSyncing = True, pending = Idle,
       listeners = (\<lambda>_. 0)(''a'' := 1, ''b'' := 1),
       emitted = [SyncStarted ''a'' Normal, SyncStarted ''b'' Normal],
       fetches = [], now = 0 \<rparr>"

section \<open>TypedSchema (src/unnamed/part_001)\<close>

text \<open>
  \<open>SchemaDefinition\<close> maps a field name to the name of a kind or to a nested
  \<open>SchemaDefinition\<close>; it is listed in the order of \<open>Object.entries\<close>. An object has each
  key once, which \<open>wf_type\<close> states for a schema and all schemas nested in it.
\<close>

datatype SchemaType = Kind string | Nested "(string \<times> SchemaType) list"

type_synonym SchemaDefinition = "(string \<times> SchemaType) list"



text \<open>
  \<open>castValue\<close> and the loop of \<open>castObject\<close>, which carries \<open>result\<close>, the object made as
  \<open>{}\<close>. \<open>key in data\<close> and \<open>data[key]\<close> see inherited properties; \<open>result[key] = ...\<close> is
  an assignment, which for the key \<open>__proto__\<close> runs the setter. The loop throws the
  \<open>TypeError\<close> of \<open>key in data\<close> when \<open>data\<close> is not an object and the schema has a field.
\<close>

fun castValue :: "builtins \<Rightarrow> jsval \<Rightarrow> SchemaType \<Rightarrow> error + jsval"
and castEntries :: "builtins \<Rightarrow> jsval \<Rightarrow> SchemaDefinition \<Rightarrow> jsval \<times> (string \<times> jsval) list
                    \<Rightarrow> error + jsval \<times> (string \<times> jsval) list" where
  "castValue B v (Kind t) =
     (if t = ''string''
      then (case js_String B v of Inl e \<Rightarrow> Inl e | Inr s \<Rightarrow> Inr (Str s))
      else if t = ''number''
      then (case js_Number B v of Inl e \<Rightarrow> Inl e | Inr n \<Rightarrow> Inr (Num n))
      else if t = ''boolean'' then Inr (Bool (js_Boolean v))
      else if t = ''object'' then Inr (if typeof_object B v then v else Obj [])
      else if t = ''array'' then Inr (if isArray B v then v else Arr [])
      else Inr v)"
| "castValue B v (Nested schema) =
     (case castEntries B v schema empty_object of
        Inl e \<Rightarrow> Inl e
      | Inr result \<Rightarrow> Inr (make_object result))"
| "castEntries B data [] result = Inr result"
| "castEntries B data (entry # rest) result =
     (case js_in B (fst entry) data of
        Inl e \<Rightarrow> Inl e
      | Inr False \<Rightarrow> castEntries B data rest result
      | Inr True \<Rightarrow>
          (case castValue B (js_get B data (fst entry)) (snd entry) of
             Inl e \<Rightarrow> Inl e
           | Inr v \<Rightarrow>
               (case assign_property B result (fst entry) v of
                  Inl e \<Rightarrow> Inl e
                | Inr result' \<Rightarrow> castEntries B data rest result')))"

definition castObject :: "builtins \<Rightarrow> jsval \<Rightarrow> SchemaDefinition \<Rightarrow> error + jsval" where
  "castObject B data schema = castValue B data (Nested schema)"

definition cast :: "builtins \<Rightarrow> SchemaDefinition \<Rightarrow> jsval \<Rightarrow> error + jsval" where
  "cast B schema data = castObject B data schema"

section \<open>DistributedState (src/data/DistributedState.ts)\<close>

text \<open>
  The store behind \<open>GunDataProvider\<close> is outside the repository. Its behaviour is a
  parameter: a state of any type \<open>'w\<close> and the two operations on it, each of which may
  reject. A log of reads and writes, if wanted, is part of \<open>'w\<close>.
\<close>

record 'w provider =
  provider_get :: "string \<Rightarrow> 'w \<Rightarrow> (error + jsval) \<times> 'w"
  provider_put :: "string \<Rightarrow> jsval \<Rightarrow> 'w \<Rightarrow> (error + unit) \<times> 'w"

text \<open>
  A handle: its path, its schema, the cached \<open>state\<close> object, and the
  \<open>stateChanged\<close> events it has emitted, each with the new and the old state. An
  operation on a handle is taken as a whole, from its call to the settling of its promise;
  what other callers do between two of its \<open>await\<close>s is not part of the model.
\<close>

record DistributedState =
  ds_path :: string
  ds_schema :: SchemaDefinition
  ds_state :: "(string \<times> jsval) list"
  ds_stateChanged :: "(jsval \<times> jsval) list"

definition updateState :: "jsval \<Rightarrow> DistributedState \<Rightarrow> DistributedState" where
  "updateState newState h =
     (let oldState = assign [] (ds_state h);
          state' = assign (assign [] (ds_state h)) (spread newState)
      in h\<lparr>ds_state := state',
           ds_stateChanged := ds_stateChanged h @ [(Obj state', Obj oldState)]\<rparr>)"

definition DistributedState_get ::
  "'w provider \<Rightarrow> builtins \<Rightarrow> DistributedState \<Rightarrow> 'w \<Rightarrow> (error + jsval) \<times> 'w" where
  "DistributedState_get P B h w =
     (case provider_get P (ds_path h) w of
        (Inl e, w') \<Rightarrow> (Inl e, w')
      | (Inr data, w') \<Rightarrow> (cast B (ds_schema h) data, w'))"

definition DistributedState_set ::
  "'w provider \<Rightarrow> builtins \<Rightarrow> jsval \<Rightarrow> DistributedState \<Rightarrow> 'w
   \<Rightarrow> (error + unit) \<times> DistributedState \<times> 'w" where
  "DistributedState_set P B data h w =
     (case cast B (ds_schema h) data of
        Inl e \<Rightarrow> (Inl e, h, w)
      | Inr validData \<Rightarrow>
          (case provider_put P (ds_path h) validData w of
             (Inl e, w') \<Rightarrow> (Inl e, h, w')
           | (Inr u, w') \<Rightarrow> (Inr (), updateState validData h, w')))"

text \<open>The updater is a caller's function; it may throw.\<close>

definition DistributedState_update ::
  "'w provider \<Rightarrow> builtins \<Rightarrow> (jsval \<Rightarrow> error + jsval) \<Rightarrow> DistributedState \<Rightarrow> 'w
   \<Rightarrow> (error + unit) \<times> DistributedState \<times> 'w" where
  "DistributedState_update P B updater h w =
     (case DistributedState_get P B h w of
        (Inl e, w') \<Rightarrow> (Inl e, h, w')
      | (Inr currentState, w') \<Rightarrow>
          (case updater currentState of
             Inl e \<Rightarrow> (Inl e, h, w')
           | Inr updates \<Rightarrow> DistributedState_set P B updates h w'))"

definition DistributedState_transaction ::
  "'w provider \<Rightarrow> builtins \<Rightarrow> (jsval \<Rightarrow> error + jsval) \<Rightarrow> DistributedState \<Rightarrow> 'w
   \<Rightarrow> (error + unit) \<times> DistributedState \<times> 'w" where
  "DistributedState_transaction P B transactionFn h w =
     (case DistributedState_get P B h w of
        (Inl e, w') \<Rightarrow> (Inl e, h, w')
      | (Inr currentState, w') \<Rightarrow>
          (case transactionFn currentState of
             Inl e \<Rightarrow> (Inl e, h, w')
           | Inr updates \<Rightarrow> DistributedState_set P B updates h w'))"

section \<open>PeerManager (src/unnamed/part_009)\<close>

text \<open>\<open>PeerInfo\<close>; its field \<open>id\<close> is named \<open>peer_id\<close> here.\<close>

record PeerInfo =
  peer_id :: string
  url :: string
  lastSeen :: nat

text \<open>
  \<open>peers: Map<string, PeerInfo>\<close> is the list of its entries in insertion order; a
  \<open>Map\<close> holds each key once. A node is \<open>{ id, data }\<close>, an edge \<open>{ source, target }\<close>.
\<close>

record NetworkGraph =
  nodes :: "(string \<times> PeerInfo) list"
  edges :: "(string \<times> string) list"

record TopologyAnalysis =
  totalPeers :: nat
  totalConnections :: nat
  averageConnections :: jsnum
  centralPeers :: "string list"

definition generateNetworkGraph :: "(string \<times> PeerInfo) list \<Rightarrow> NetworkGraph" where
  "generateNetworkGraph peers =
     \<lparr> nodes = map (\<lambda>(peerId, peer). (peerId, peer)) peers,
       edges = concat (map (\<lambda>(peerId, peer).
                 map (\<lambda>(otherPeerId, otherPeer). (peerId, otherPeerId))
                     (filter (\<lambda>(otherPeerId, otherPeer). peerId \<noteq> otherPeerId) peers))
                 peers) \<rparr>"

text \<open>\<open>connectionCounts.set(k, (connectionCounts.get(k) || 0) + 1)\<close>.\<close>

definition bump :: "string \<Rightarrow> (string \<times> nat) list \<Rightarrow> (string \<times> nat) list" where
  "bump k m = AList.update k ((case map_of m k of None \<Rightarrow> 0 | Some c \<Rightarrow> c) + 1) m"

definition connectionCounts :: "(string \<times> string) list \<Rightarrow> (string \<times> nat) list" where
  "connectionCounts es = fold (\<lambda>edge m. bump (snd edge) (bump (fst edge) m)) es []"

definition findCentralPeers :: "NetworkGraph \<Rightarrow> string list" where
  "findCentralPeers graph =
     (let averageConnections = js_div (length (edges graph)) (length (nodes graph))
      in map fst (filter (\<lambda>(peerId, count). js_gt (Fin (of_nat count)) averageConnections)
                         (connectionCounts (edges graph))))"

definition analyzeTopology :: "(string \<times> PeerInfo) list \<Rightarrow> TopologyAnalysis" where
  "analyzeTopology peers =
     (let graph = generateNetworkGraph peers
      in \<lparr> totalPeers = length (nodes graph),
           totalConnections = length (edges graph),
           averageConnections = js_div (length (edges graph)) (length (nodes graph)),
           centralPeers = findCentralPeers graph \<rparr>)"

text \<open>
  The count that the map of \<open>findCentralPeers\<close> holds for a peer (\<open>0\<close> for a peer it
  does not hold).
\<close>

definition cnt :: "(string \<times> nat) list \<Rightarrow> string \<Rightarrow> nat" where
  "cnt m p = (case map_of m p of None \<Rightarrow> 0 | Some c \<Rightarrow> c)"

text \<open>
  The reading of \<open>centralPeers\<close> in the specification, kept apart from the code: given
  the connection count of every peer, the peers whose count is above the average
  connection count, the average being the sum of the counts divided by the number of
  peers.
\<close>

definition spec_centralPeers :: "(string \<Rightarrow> nat) \<Rightarrow> string list \<Rightarrow> string list" where
  "spec_centralPeers count ps =
     filter (\<lambda>p. js_gt (Fin (of_nat (count p)))
                       (js_div (sum_list (map count ps)) (length ps))) ps"

section \<open>ComponentRegistry (src/unnamed/part_007)\<close>

text \<open>
  The cryptographic operations are those of the \<open>SEA\<close> wrapper (src/auth/SEA.ts), which
  hands every call to the Gun library. They are parameters of the model: total functions
  on values, as the wrapper's arguments and results have type \<open>any\<close>.
\<close>

record crypto =
  SEA_sign :: "jsval \<Rightarrow> jsval \<Rightarrow> jsval"
  SEA_verify :: "jsval \<Rightarrow> jsval \<Rightarrow> jsval"
  SEA_encrypt :: "jsval \<Rightarrow> jsval \<Rightarrow> jsval"
  SEA_decrypt :: "jsval \<Rightarrow> jsval \<Rightarrow> jsval"
  SEA_secret :: "jsval \<Rightarrow> jsval \<Rightarrow> jsval"

text \<open>
  The registry: the state of the store behind \<open>this.gun\<close>, the array
  \<open>indexedComponents\<close> from which the search index is rebuilt, and the
  \<open>componentUpdate\<close> events emitted so far.
\<close>

record 'w registry =
  gun :: 'w
  indexedComponents :: "jsval list"
  componentUpdates :: "jsval list"

text \<open>\<open>address.split('/')\<close> and the element of an array pattern (\<open>undefined\<close> past the end).\<close>

fun split_on :: "char \<Rightarrow> string \<Rightarrow> string list" where
  "split_on c [] = [[]]"
| "split_on c (x # xs) =
     (if x = c then [] # split_on c xs
      else (case split_on c xs of [] \<Rightarrow> [[x]] | y # ys \<Rightarrow> (x # y) # ys))"

definition element :: "string list \<Rightarrow> nat \<Rightarrow> jsval" where
  "element xs i = (if i < length xs then Str (xs ! i) else Undefined)"

definition parseAddress :: "string \<Rightarrow> jsval" where
  "parseAddress address =
     (let parts = split_on CHR ''/'' address
      in Obj [(''author'', element parts 0), (''id'', element parts 1),
              (''version'', element parts 2)])"

definition getComponentPath :: "builtins \<Rightarrow> jsval \<Rightarrow> error + string" where
  "getComponentPath B metadata =
     (case member B metadata ''acl'' of
        Inl e \<Rightarrow> Inl e
      | Inr acl \<Rightarrow>
     (case member B acl ''type'' of
        Inl e \<Rightarrow> Inl e
      | Inr t \<Rightarrow>
          let baseType = (if t = Str ''public'' then ''public'' else ''private'') in
     (case js_String B (js_get B metadata ''author'') of
        Inl e \<Rightarrow> Inl e
      | Inr author \<Rightarrow>
     (case js_String B (js_get B metadata ''id'') of
        Inl e \<Rightarrow> Inl e
      | Inr ident \<Rightarrow>
     (case js_String B (js_get B metadata ''version'') of
        Inl e \<Rightarrow> Inl e
      | Inr version \<Rightarrow>
          Inr (''components/'' @ baseType @ ''/'' @ author @ ''/'' @ ident
               @ ''/'' @ version))))))"

text \<open>
  \<open>target.key = v\<close> in strict code, as \<open>metadata.signature = ...\<close>. An object takes the
  property as \<open>assign_property\<close> says. A primitive value cannot take a property: the
  assignment throws. An array or an engine object would take it, but their model here
  has no place for a named property: they are left as they are.
\<close>

fun assign_member :: "builtins \<Rightarrow> jsval \<Rightarrow> string \<Rightarrow> jsval \<Rightarrow> error + jsval" where
  "assign_member B (Obj ps) key v =
     (case assign_property B (Native ''Object.prototype'', ps) key v of
        Inl e \<Rightarrow> Inl e
      | Inr target \<Rightarrow> Inr (make_object target))"
| "assign_member B (Proto p ps) key v =
     (case assign_property B (p, ps) key v of
        Inl e \<Rightarrow> Inl e
      | Inr target \<Rightarrow> Inr (make_object target))"
| "assign_member B (Arr xs) key v = Inr (Arr xs)"
| "assign_member B (Native n) key v = Inr (Native n)"
| "assign_member B target key v = Inl (TypeError ''Cannot create property'')"

text \<open>
  The object \<open>target\<close> after the object that \<open>target.key\<close> names was changed in place
  into \<open>v\<close>: every later read of \<open>target.key\<close> gives \<open>v\<close>.
\<close>

fun set_property :: "jsval \<Rightarrow> string \<Rightarrow> jsval \<Rightarrow> jsval" where
  "set_property (Obj ps) key v = Obj (AList.update key v ps)"
| "set_property (Proto p ps) key v = Proto p (AList.update key v ps)"
| "set_property target key v = target"

text \<open>
  \<open>v[k]\<close> with a computed key: a \<open>TypeError\<close> when \<open>v\<close> is \<open>undefined\<close> or \<open>null\<close>;
  otherwise the key is converted to a string, which may throw.
\<close>

definition computed_member :: "builtins \<Rightarrow> jsval \<Rightarrow> jsval \<Rightarrow> error + jsval" where
  "computed_member B v k =
     (if v = Undefined \<or> v = Null then member B v []
      else (case js_String B k of
              Inl e \<Rightarrow> Inl e
            | Inr key \<Rightarrow> Inr (js_get B v key)))"

text \<open>
  \<open>a === b\<close>. Two objects or arrays that are held in different places are taken to be
  different objects; an engine object is the same as itself.
\<close>

fun strict_eq :: "jsval \<Rightarrow> jsval \<Rightarrow> bool" where
  "strict_eq (Num NaN) b = False"
| "strict_eq (Arr xs) b = False"
| "strict_eq (Obj ps) b = False"
| "strict_eq (Proto p ps) b = False"
| "strict_eq a b = (a = b)"

definition verifyComponentSignature :: "crypto \<Rightarrow> builtins \<Rightarrow> jsval \<Rightarrow> error + jsval" where
  "verifyComponentSignature C B component =
     (case member B component ''metadata'' of
        Inl e \<Rightarrow> Inl e
      | Inr metadata \<Rightarrow>
          let code = js_get B component ''code'';
              signedData = stringify B (Obj
                [(''metadata'', Obj (AList.update ''signature'' Undefined
                                       (assign [] (spread metadata)))),
                 (''code'', code)])
          in (case member B metadata ''signature'' of
                Inl e \<Rightarrow> Inl e
              | Inr signature \<Rightarrow> Inr (SEA_verify C signedData signature)))"

text \<open>\<open>decryptComponent\<close>; the result \<open>Null\<close> is its \<open>return null\<close>.\<close>

definition decryptComponent :: "crypto \<Rightarrow> builtins \<Rightarrow> jsval \<Rightarrow> jsval \<Rightarrow> error + jsval" where
  "decryptComponent C B encryptedPackage userPair =
     (case member B encryptedPackage ''encryptedKey'' of
        Inl e \<Rightarrow> Inl e
      | Inr encryptedKey \<Rightarrow>
     (case member B userPair ''pub'' of
        Inl e \<Rightarrow> Inl e
      | Inr pub \<Rightarrow>
     (case computed_member B encryptedKey pub of
        Inl e \<Rightarrow> Inl e
      | Inr entry \<Rightarrow>
          let symmetricKey = SEA_decrypt C entry userPair in
          if \<not> js_Boolean symmetricKey then Inr Null
          else
     (case parse B (SEA_decrypt C (js_get B encryptedPackage ''metadata'') symmetricKey) of
        Inl e \<Rightarrow> Inl e
      | Inr metadata \<Rightarrow>
          let code = SEA_decrypt C (js_get B encryptedPackage ''code'') symmetricKey in
          if js_Boolean (js_get B encryptedPackage ''state'')
          then (case parse B (SEA_decrypt C (js_get B encryptedPackage ''state'') symmetricKey) of
                  Inl e \<Rightarrow> Inl e
                | Inr state \<Rightarrow>
                    Inr (Obj [(''metadata'', metadata), (''code'', code), (''state'', state)]))
          else Inr (Obj [(''metadata'', metadata), (''code'', code),
                         (''state'', Undefined)])))))"

definition getComponent ::
  "'w provider \<Rightarrow> crypto \<Rightarrow> builtins \<Rightarrow> string \<Rightarrow> jsval \<Rightarrow> 'w registry
   \<Rightarrow> (error + jsval) \<times> 'w registry" where
  "getComponent P C B address userPair R =
     (case getComponentPath B (parseAddress address) of
        Inl e \<Rightarrow> (Inl e, R)
      | Inr path \<Rightarrow>
     (case provider_get P path (gun R) of
        (Inl e, w) \<Rightarrow> (Inl e, R\<lparr>gun := w\<rparr>)
      | (Inr data, w) \<Rightarrow>
          if \<not> js_Boolean data then (Inr Null, R\<lparr>gun := w\<rparr>)
          else if js_Boolean (js_get B data ''metadata'')
                  \<and> \<not> typeof_string (js_get B data ''metadata'')
          then (case verifyComponentSignature C B data of
                  Inl e \<Rightarrow> (Inl e, R\<lparr>gun := w\<rparr>)
                | Inr ok \<Rightarrow>
                    if \<not> js_Boolean ok
                    then (Inl (Error ''Component signature verification failed''),
                          R\<lparr>gun := w\<rparr>)
                    else (Inr data, R\<lparr>gun := w\<rparr>))
          else (case decryptComponent C B data userPair of
                  Inl e \<Rightarrow> (Inl e, R\<lparr>gun := w\<rparr>)
                | Inr decrypted \<Rightarrow>
                    if \<not> js_Boolean decrypted then (Inr Null, R\<lparr>gun := w\<rparr>)
                    else (case verifyComponentSignature C B decrypted of
                            Inl e \<Rightarrow> (Inl e, R\<lparr>gun := w\<rparr>)
                          | Inr ok \<Rightarrow>
                              if \<not> js_Boolean ok
                              then (Inl (Error ''Component signature verification failed''),
                                    R\<lparr>gun := w\<rparr>)
                              else (Inr decrypted, R\<lparr>gun := w\<rparr>)))))"

text \<open>
  The values that \<open>for (const userPubKey of acl.allowedUsers || [])\<close> visits: the
  elements of an array, the characters of a string. An ordinary object and a number or
  boolean are not iterable; an object with another prototype or an engine object is
  iterated as the language says.
\<close>

fun iterate :: "builtins \<Rightarrow> jsval \<Rightarrow> error + jsval list" where
  "iterate B (Arr xs) = Inr xs"
| "iterate B (Str s) = Inr (map (\<lambda>c. Str [c]) s)"
| "iterate B (Proto p ps) = iterator B (Proto p ps)"
| "iterate B (Native n) = iterator B (Native n)"
| "iterate B v = Inl (TypeError ''value is not iterable'')"

text \<open>
  The loop of \<open>encryptComponent\<close>: \<open>encryptedKey[userPubKey] = ...\<close> for each user, an
  assignment to the object made as \<open>{}\<close>.
\<close>

fun encryptKeys ::
  "crypto \<Rightarrow> builtins \<Rightarrow> string \<Rightarrow> jsval \<Rightarrow> jsval list \<Rightarrow> jsval \<times> (string \<times> jsval) list
   \<Rightarrow> error + jsval \<times> (string \<times> jsval) list" where
  "encryptKeys C B symmetricKey currentUserPair [] encryptedKey = Inr encryptedKey"
| "encryptKeys C B symmetricKey currentUserPair (userPubKey # rest) encryptedKey =
     (case js_String B userPubKey of
        Inl e \<Rightarrow> Inl e
      | Inr key \<Rightarrow>
          (case assign_property B encryptedKey key
                  (SEA_encrypt C (Str symmetricKey)
                     (SEA_secret C userPubKey currentUserPair)) of
             Inl e \<Rightarrow> Inl e
           | Inr encryptedKey' \<Rightarrow>
               encryptKeys C B symmetricKey currentUserPair rest encryptedKey'))"

text \<open>
  \<open>encryptComponent\<close>. \<open>symmetricKey\<close> is the string that \<open>generateRandom(16)\<close> draws from
  \<open>Math.random()\<close>; it is an input of the model.
\<close>

definition encryptComponent ::
  "crypto \<Rightarrow> builtins \<Rightarrow> jsval \<Rightarrow> jsval \<Rightarrow> jsval \<Rightarrow> string \<Rightarrow> error + jsval" where
  "encryptComponent C B component acl currentUserPair symmetricKey =
     (let encryptedMetadata =
            SEA_encrypt C (stringify B (js_get B component ''metadata'')) (Str symmetricKey);
          encryptedCode = SEA_encrypt C (js_get B component ''code'') (Str symmetricKey);
          encryptedState =
            (if js_Boolean (js_get B component ''state'')
             then SEA_encrypt C (stringify B (js_get B component ''state'')) (Str symmetricKey)
             else Undefined)
      in case iterate B (if js_Boolean (js_get B acl ''allowedUsers'')
                         then js_get B acl ''allowedUsers'' else Arr []) of
           Inl e \<Rightarrow> Inl e
         | Inr users \<Rightarrow>
             (case encryptKeys C B symmetricKey currentUserPair users empty_object of
                Inl e \<Rightarrow> Inl e
              | Inr encryptedKey \<Rightarrow>
                  Inr (Obj [(''metadata'', encryptedMetadata), (''code'', encryptedCode),
                            (''state'', encryptedState),
                            (''encryptedKey'', make_object encryptedKey)])))"

definition notifyComponentUpdate :: "builtins \<Rightarrow> jsval \<Rightarrow> 'w registry \<Rightarrow> 'w registry" where
  "notifyComponentUpdate B metadata R =
     R\<lparr>componentUpdates := componentUpdates R @
          [Obj [(''id'', js_get B metadata ''id''), (''version'', js_get B metadata ''version''),
                (''changes'', Arr [])]]\<rparr>"

text \<open>
  \<open>updateSearchIndex\<close>: \<open>findIndex\<close> with \<open>c.id === metadata.id\<close>, then the replacement of
  that element or the \<open>push\<close>.
\<close>

fun replace_by_id :: "builtins \<Rightarrow> jsval \<Rightarrow> jsval list \<Rightarrow> error + jsval list" where
  "replace_by_id B metadata [] = Inr [metadata]"
| "replace_by_id B metadata (c # cs) =
     (case member B c ''id'' of
        Inl e \<Rightarrow> Inl e
      | Inr cid \<Rightarrow>
          (case member B metadata ''id'' of
             Inl e \<Rightarrow> Inl e
           | Inr mid \<Rightarrow>
               if strict_eq cid mid then Inr (metadata # cs)
               else (case replace_by_id B metadata cs of
                       Inl e \<Rightarrow> Inl e
                     | Inr cs' \<Rightarrow> Inr (c # cs'))))"

definition updateSearchIndex :: "builtins \<Rightarrow> jsval \<Rightarrow> 'w registry \<Rightarrow> error + 'w registry" where
  "updateSearchIndex B metadata R =
     (case replace_by_id B metadata (indexedComponents R) of
        Inl e \<Rightarrow> Inl e
      | Inr cs \<Rightarrow> Inr (R\<lparr>indexedComponents := cs\<rparr>))"

text \<open>
  \<open>publishComponent\<close>. The assignment \<open>metadata.signature = ...\<close> changes the object that
  \<open>component.metadata\<close> also names, so the component that \<open>encryptComponent\<close> and
  \<open>updateSearchIndex\<close> see carries the new signature.
\<close>

definition publishComponent ::
  "'w provider \<Rightarrow> crypto \<Rightarrow> builtins \<Rightarrow> jsval \<Rightarrow> jsval \<Rightarrow> string \<Rightarrow> 'w registry
   \<Rightarrow> (error + unit) \<times> 'w registry" where
  "publishComponent P C B component currentUserPair symmetricKey R =
     (case member B component ''metadata'' of
        Inl e \<Rightarrow> (Inl e, R)
      | Inr metadata \<Rightarrow>
     (let code = js_get B component ''code''; state = js_get B component ''state'' in
      case getComponentPath B metadata of
        Inl e \<Rightarrow> (Inl e, R)
      | Inr path \<Rightarrow>
     (let signature = SEA_sign C (stringify B (Obj [(''metadata'', metadata), (''code'', code)]))
                                 currentUserPair
      in case assign_member B metadata ''signature'' signature of
           Inl e \<Rightarrow> (Inl e, R)
         | Inr metadata' \<Rightarrow>
     (let component' = set_property component ''metadata'' metadata';
          acl = js_get B metadata' ''acl''
      in case (if js_get B acl ''type'' = Str ''public''
               then Inr (Obj [(''metadata'', metadata'), (''code'', code), (''state'', state)])
               else encryptComponent C B component' acl currentUserPair symmetricKey) of
           Inl e \<Rightarrow> (Inl e, R)
         | Inr package \<Rightarrow>
             (case provider_put P path package (gun R) of
                (Inl e, w) \<Rightarrow> (Inl e, R\<lparr>gun := w\<rparr>)
              | (Inr u, w) \<Rightarrow>
                  (case updateSearchIndex B metadata'
                          (notifyComponentUpdate B metadata' (R\<lparr>gun := w\<rparr>)) of
                     Inl e \<Rightarrow> (Inl e, notifyComponentUpdate B metadata' (R\<lparr>gun := w\<rparr>))
                   | Inr R' \<Rightarrow> (Inr (), R')))))))"

text \<open>
  A store that keeps what is put under a path and answers \<open>null\<close> for a path without
  data (as \<open>GunNode.get\<close> resolves), and one instance of the operations that are
  parameters. They serve to state closed facts about the registry.
\<close>

definition memory_store :: "((string \<times> jsval) list) provider" where
  "memory_store =
     \<lparr> provider_get = (\<lambda>path w. (Inr (case map_of w path of None \<Rightarrow> Null | Some v \<Rightarrow> v), w)),
       provider_put = (\<lambda>path v w. (Inr (), AList.update path v w)) \<rparr>"

text \<open>
  The value that the text \<open>JSON.stringify(v)\<close> denotes: properties whose value is
  \<open>undefined\<close> or a function are left out, such a value in an array and a number that is
  not finite become \<open>null\<close>. In \<open>plain_builtins\<close> a JSON text is represented by this
  value. \<open>plain_builtins\<close> is a stand-in for the engine: its \<open>String\<close> knows
  \<open>undefined\<close>, \<open>null\<close> and the booleans, throws on an object without prototype and
  answers \<open>[object Object]\<close> for the rest; its \<open>Number\<close> answers \<open>NaN\<close>; every engine
  object is a function with \<open>length\<close>, \<open>name\<close> and the members of \<open>Object.prototype\<close>.
\<close>

fun json_value :: "jsval \<Rightarrow> jsval"
and json_props :: "(string \<times> jsval) list \<Rightarrow> (string \<times> jsval) list"
and json_items :: "jsval list \<Rightarrow> jsval list" where
  "json_value (Obj ps) = Obj (json_props ps)"
| "json_value (Proto p ps) = Obj (json_props ps)"
| "json_value (Arr xs) = Arr (json_items xs)"
| "json_value (Num n) = (case n of Fin q \<Rightarrow> Num n | _ \<Rightarrow> Null)"
| "json_value (Native n) = Undefined"
| "json_value v = v"
| "json_props [] = []"
| "json_props (p # ps) =
     (if json_value (snd p) = Undefined then json_props ps
      else (fst p, json_value (snd p)) # json_props ps)"
| "json_items [] = []"
| "json_items (x # xs) =
     (if json_value x = Undefined then Null else json_value x) # json_items xs"

definition plain_builtins :: builtins where
  "plain_builtins =
     \<lparr> ToString = (\<lambda>v. case v of
                          Undefined \<Rightarrow> Inr ''undefined''
                        | Null \<Rightarrow> Inr ''null''
                        | Bool b \<Rightarrow> Inr (if b then ''true'' else ''false'')
                        | Proto p ps \<Rightarrow>
                            if p = Null
                            then Inl (TypeError ''Cannot convert object to primitive value'')
                            else Inr ''[object Object]''
                        | _ \<Rightarrow> Inr ''[object Object]''),
       ToNumber = (\<lambda>v. Inr NaN),
       stringify = json_value,
       parse = Inr,
       iterator = (\<lambda>v. Inl (TypeError ''value is not iterable'')),
       native_lookup = (\<lambda>n key.
                          if key = ''length'' then Some (Data (Num (Fin 0)) False)
                          else if key = ''name'' then Some (Data (Str n) False)
                          else Object_prototype key),
       native_prototype = (\<lambda>n. Native ''Function.prototype''),
       native_callable = (\<lambda>n. True),
       native_isArray = (\<lambda>n. False) \<rparr>"

text \<open>
  In \<open>plain_crypto\<close> a signature records the signed data and the signing key, a
  ciphertext the data and the key; \<open>verify\<close> compares the data, \<open>decrypt\<close> the key.
\<close>

definition plain_crypto :: crypto where
  "plain_crypto =
     \<lparr> SEA_sign = (\<lambda>d k. Obj [(''m'', d), (''s'', js_get plain_builtins k ''priv'')]),
       SEA_verify = (\<lambda>d s. Bool (js_get plain_builtins s ''m'' = d)),
       SEA_encrypt = (\<lambda>d k. Obj [(''ct'', d), (''key'', k)]),
       SEA_decrypt = (\<lambda>c k. if js_get plain_builtins c ''key'' = k
                             then js_get plain_builtins c ''ct'' else Undefined),
       SEA_secret = (\<lambda>p k. Obj [(''shared'', p), (''with'', js_get plain_builtins k ''pub'')]) \<rparr>"

text \<open>A metadata object with the fields of \<open>ComponentMetadata\<close>, and a private ACL.\<close>

definition metadata_of :: "string \<Rightarrow> string \<Rightarrow> string \<Rightarrow> jsval \<Rightarrow> jsval \<Rightarrow> jsval" where
  "metadata_of i v a acl sg =
     Obj [(''id'', Str i), (''name'', Str ''Widget''), (''version'', Str v), (''author'', Str a),
          (''description'', Str ''a widget''), (''tags'', Arr [Str ''ui'']),
          (''dependencies'', Obj []), (''acl'', acl), (''signature'', sg)]"

definition private_acl :: "string \<Rightarrow> jsval" where
  "private_acl pubA = Obj [(''type'', Str ''private''), (''allowedUsers'', Arr [Str pubA])]"

definition empty_registry :: "((string \<times> jsval) list) registry" where
  "empty_registry = \<lparr>gun = [], indexedComponents = [], componentUpdates = []\<rparr>"

section \<open>Properties of the SyncManager\<close>

lemma drain_pending: "drain es (s\<lparr>pending := x\<rparr>) = drain es s"
  by (induction es arbitrary: s) (auto split: option.splits)

lemma drain_syncQueue: "drain es (s\<lparr>syncQueue := x\<rparr>) = drain es s"
  by (induction es arbitrary: s) (auto split: option.splits)

lemma drain_eqI:
  "s\<lparr>syncQueue := [], pending := Idle\<rparr> = t\<lparr>syncQueue := [], pending := Idle\<rparr>
   \<Longrightarrow> drain es s = drain es t"
  by (metis drain_pending drain_syncQueue)

lemma priorityValues_inj: "priorityValues p = priorityValues q \<longleftrightarrow> p = q"
  by (cases p; cases q) simp_all

lemma enqueue_keeps_arrival_order:
  "filter (\<lambda>e. fst e = p) (enqueue v q es) = filter (\<lambda>e. fst e = p) (es @ [(q, v)])"
proof -
  have "filter (\<lambda>e. priorityValues (fst e) = priorityValues p) (enqueue v q es)
        = filter (\<lambda>e. priorityValues (fst e) = priorityValues p) (es @ [(q, v)])"
    unfolding enqueue_def sort_elements_def by (rule sort_key_stable)
  then show ?thesis
    by (simp only: priorityValues_inj)
qed

text \<open>
  C1. Paths started with the priorities Low, High, Normal in that order: the claim says
  the drain loop reconciles them High, Normal, Low. The queue sorts ascending on
  \<open>priorityValues\<close> and \<open>dequeue\<close> takes the head, so the queue hands out Low, Normal,
  High. Started while the loop is busy with a path \<open>''x''\<close>, the three paths wait in the
  queue and are completed Low, Normal, High; started on an idle manager, the first one is
  taken at once and the order is again Low, Normal, High.
\<close>

theorem drain_order_low_first:
  "map snd (enqueue ''n'' Normal (enqueue ''h'' High (enqueue ''l'' Low [])))
     = [''l'', ''n'', ''h'']
   \<and> fst (dequeue (enqueue ''n'' Normal (enqueue ''h'' High (enqueue ''l'' Low []))))
     = Some ''l''
   \<and> completed (emitted (run [StartSync ''x'' Normal, StartSync ''l'' Low,
                               StartSync ''h'' High, StartSync ''n'' Normal,
                               FetchDone (Inr d0), FetchDone (Inr d1),
                               FetchDone (Inr d2), FetchDone (Inr d3)]
                              (init {})))
     = [''x'', ''l'', ''n'', ''h'']
   \<and> completed (emitted (run [StartSync ''l'' Low, StartSync ''h'' High,
                               StartSync ''n'' Normal,
                               FetchDone (Inr d1), FetchDone (Inr d2), FetchDone (Inr d3)]
                              (init {})))
     = [''l'', ''n'', ''h'']"
  by (simp add: run_def init_def startSync_def processSyncQueue_def enqueue_def dequeue_def
      sort_elements_def fetchDone_def attempt_succeeded_def maxRetries_def Let_def)

lemma start_b_a:
  "step (StartSync ''a'' prio) (step (StartSync ''b'' Normal) (init {})) = after_updates prio d 0"
  by (simp add: init_def startSync_def processSyncQueue_def enqueue_def sort_elements_def
      maxRetries_def after_updates_def)

lemma update_a:
  "step (RemoteUpdate ''a'' d) (after_updates prio d k) = after_updates prio d (Suc k)"
  by (simp add: after_updates_def handleUpdate_def processSyncQueue_def updatePriority_def
      sort_elements_def replicate_append_same)

lemma updates_a:
  "((step (RemoteUpdate ''a'' d)) ^^ k) (after_updates prio d 0) = after_updates prio d k"
  by (induction k) (simp_all add: update_a del: step.simps)

text \<open>
  C2. After \<open>N\<close> remote updates of a watched path and one successful reconciliation of it
  by the drain loop the claim says \<open>pendingChanges = 0\<close>. The loop decrements
  (\<open>status.pendingChanges--\<close>): the path \<open>''a''\<close> waits in the queue while \<open>N\<close> updates
  arrive, then is dequeued, fetched and completed, and its \<open>pendingChanges\<close> is \<open>N - 1\<close>.
\<close>

theorem pendingChanges_after_reconciliation:
  "getSyncStatus
     (run (StartSync ''b'' Normal # StartSync ''a'' prio #
           replicate N (RemoteUpdate ''a'' d) @ [FetchDone (Inr v), FetchDone (Inr w)])
          (init {})) ''a''
   = Some \<lparr>lastSyncTime = 0, pendingChanges = int N - 1, priority = prio, isPaused = False\<rparr>"
proof -
  have "run (StartSync ''b'' Normal # StartSync ''a'' prio #
             replicate N (RemoteUpdate ''a'' d) @ [FetchDone (Inr v), FetchDone (Inr w)])
            (init {})
        = fetchDone (Inr w) (fetchDone (Inr v) (after_updates prio d N))"
    by (simp add: run_def start_b_a [of prio d] updates_a del: step.simps) simp
  then show ?thesis
    by (simp add: getSyncStatus_def fetchDone_def attempt_succeeded_def after_updates_def
        maxRetries_def Let_def)
qed

text \<open>
  C3. The claim says that \<open>pendingChanges\<close> is never negative in a reachable state. A path
  that is started and reconciled before any remote update has \<open>pendingChanges = -1\<close>.
\<close>

theorem pendingChanges_negative:
  "getSyncStatus (run [StartSync ''a'' Normal, FetchDone (Inr d)] (init {})) ''a''
   = Some \<lparr>lastSyncTime = 0, pendingChanges = - 1, priority = Normal, isPaused = False\<rparr>"
  by (simp add: getSyncStatus_def run_def init_def startSync_def processSyncQueue_def
      enqueue_def sort_elements_def fetchDone_def attempt_succeeded_def maxRetries_def Let_def)

text \<open>
  C4. The drain loop takes a watched path \<open>p\<close> from the head of the queue and every read
  of \<open>p\<close> fails. After the third failure the loop is exactly the drain loop on the rest of
  the queue, in a state that differs from the one before \<open>p\<close> by three reads of \<open>p\<close> and
  one sync-error event for \<open>p\<close>. The next path \<open>q\<close>, watched and without a bound
  \<open>DistributedState\<close>, is then read once and completed.
\<close>

theorem failing_path_three_attempts:
  assumes "p \<noteq> []" and "syncStatus s p = Some r"
      and "q \<noteq> []" and "syncStatus s q = Some r'" and "q \<notin> distributedStates s"
  shows "run [FetchDone (Inl e1), FetchDone (Inl e2), FetchDone (Inl e3)]
             (drain ((pp, p) # (pq, q) # rest) s)
         = drain ((pq, q) # rest)
             (s\<lparr>fetches := fetches s @ [p, p, p], emitted := emitted s @ [SyncError p e3]\<rparr>)
       \<and> run [FetchDone (Inl e1), FetchDone (Inl e2), FetchDone (Inl e3), FetchDone (Inr d)]
             (drain ((pp, p) # (pq, q) # rest) s)
         = (let st = (heap s ! r')\<lparr>pendingChanges := pendingChanges (heap s ! r') - 1,
                                     lastSyncTime := now s\<rparr>
            in drain rest
                 (s\<lparr>heap := (heap s)[r' := st],
                    syncStatus := (syncStatus s)(q \<mapsto> r'),
                    fetches := fetches s @ [p, p, p, q],
                    emitted := emitted s @ [SyncError p e3, SyncCompleted q st]\<rparr>))"
  using assms
  by (auto simp add: run_def fetchDone_def attempt_failed_def attempt_succeeded_def
      maxRetries_def Let_def intro!: drain_eqI)

theorem failing_path_three_attempts_witness:
  "''a'' \<noteq> [] \<and> syncStatus two_watched ''a'' = Some 0
   \<and> ''b'' \<noteq> [] \<and> syncStatus two_watched ''b'' = Some 1
   \<and> ''b'' \<notin> distributedStates two_watched
   \<and> run [StartSync ''a'' Normal, StartSync ''b'' Normal] (init {})
       = drain [(Normal, ''a''), (Normal, ''b'')] two_watched
   \<and> fetches (run [FetchDone (Inl (Rejected ''x'')), FetchDone (Inl (Rejected ''y'')),
                    FetchDone (Inl (Rejected ''z'')), FetchDone (Inr Null)]
                   (run [StartSync ''a'' Normal, StartSync ''b'' Normal] (init {})))
       = [''a'', ''a'', ''a'', ''b'']
   \<and> emitted (run [FetchDone (Inl (Rejected ''x'')), FetchDone (Inl (Rejected ''y'')),
                    FetchDone (Inl (Rejected ''z'')), FetchDone (Inr Null)]
                   (run [StartSync ''a'' Normal, StartSync ''b'' Normal] (init {})))
       = [SyncStarted ''a'' Normal, SyncStarted ''b'' Normal,
          SyncError ''a'' (Rejected ''z''),
          SyncCompleted ''b'' \<lparr>lastSyncTime = 0, pendingChanges = - 1,
                                priority = Normal, isPaused = False\<rparr>]"
proof -
  have s: "run [StartSync ''a'' Normal, StartSync ''b'' Normal] (init {})
           = drain [(Normal, ''a''), (Normal, ''b'')] two_watched"
    by (simp add: run_def init_def startSync_def processSyncQueue_def enqueue_def
        sort_elements_def maxRetries_def two_watched_def)
  have h: "''a'' \<noteq> []" "syncStatus two_watched ''a'' = Some 0"
          "''b'' \<noteq> []" "syncStatus two_watched ''b'' = Some 1"
          "''b'' \<notin> distributedStates two_watched"
    by (simp_all add: two_watched_def)
  from failing_path_three_attempts [OF h, of "Rejected ''x''" "Rejected ''y''" "Rejected ''z''"
         Normal Normal "[]" Null]
  have "run [FetchDone (Inl (Rejected ''x'')), FetchDone (Inl (Rejected ''y'')),
             FetchDone (Inl (Rejected ''z'')), FetchDone (Inr Null)]
            (drain [(Normal, ''a''), (Normal, ''b'')] two_watched)
        = (let st = (heap two_watched ! 1)\<lparr>pendingChanges := pendingChanges (heap two_watched ! 1) - 1,
                                     lastSyncTime := now two_watched\<rparr>
            in drain []
                 (two_watched\<lparr>heap := (heap two_watched)[1 := st],
                    syncStatus := (syncStatus two_watched)(''b'' \<mapsto> 1),
                    fetches := fetches two_watched @ [''a'', ''a'', ''a'', ''b''],
                    emitted := emitted two_watched @ [SyncError ''a'' (Rejected ''z''), SyncCompleted ''b'' st]\<rparr>))"
    by blast
  then show ?thesis
    using s h by (simp add: two_watched_def Let_def)
qed

section \<open>Properties of TypedSchema\<close>










section \<open>Properties of DistributedState\<close>

text \<open>
  C9. \<open>transaction\<close> and \<open>update\<close> of a handle are the same function: for every store
  behaviour, every conversion of the language, every caller's function, every handle and
  every state of the store they return the same result, leave the same handle (cache and
  emitted events) and the same store (its reads and writes).
\<close>

theorem transaction_eq_update:
  "DistributedState_transaction P B fn h w = DistributedState_update P B fn h w"
  by (simp add: DistributedState_transaction_def DistributedState_update_def)

section \<open>Properties of PeerManager\<close>

lemma cnt_bump: "cnt (bump k m) p = cnt m p + (if p = k then 1 else 0)"
  by (simp add: cnt_def bump_def update_conv')

lemma dom_bump: "fst ` set (bump k m) = insert k (fst ` set m)"
  by (simp add: bump_def dom_map_of_conv_image_fst [symmetric] update_conv' del: dom_map_of_conv_image_fst)

lemma distinct_bump: "distinct (map fst m) \<Longrightarrow> distinct (map fst (bump k m))"
  by (simp add: bump_def distinct_update)

lemma fold_counts:
  "cnt (fold (\<lambda>edge m. bump (snd edge) (bump (fst edge) m)) es m) p
     = cnt m p + (length (filter (\<lambda>e. fst e = p) es) + length (filter (\<lambda>e. snd e = p) es))"
  by (induction es arbitrary: m) (auto simp: cnt_bump)

lemma cnt_connectionCounts:
  "cnt (connectionCounts es) p
     = length (filter (\<lambda>e. fst e = p) es) + length (filter (\<lambda>e. snd e = p) es)"
  unfolding connectionCounts_def by (simp add: fold_counts) (simp add: cnt_def)

lemma fold_keys:
  "fst ` set (fold (\<lambda>edge m. bump (snd edge) (bump (fst edge) m)) es m) = fst ` set m \<union> fst ` set es \<union> snd ` set es"
  by (induction es arbitrary: m) (auto simp: dom_bump)

lemma fold_distinct:
  "distinct (map fst m) \<Longrightarrow> distinct (map fst (fold (\<lambda>edge m. bump (snd edge) (bump (fst edge) m)) es m))"
  by (induction es arbitrary: m) (auto simp: distinct_bump)


lemma edges_ids:
  "edges (generateNetworkGraph peers) =
     concat (map (\<lambda>a. map (Pair a) (filter (\<lambda>b. a \<noteq> b) (map fst peers))) (map fst peers))"
  by (simp add: generateNetworkGraph_def map_concat filter_map comp_def case_prod_unfold)

lemma length_mesh:
  "length (concat (map (\<lambda>a. map (Pair a) (filter (\<lambda>b. a \<noteq> b) ys)) xs)) =
     (\<Sum>a\<leftarrow>xs. length ys - count_list ys a)"
proof -
  have "length (filter (\<lambda>b. a \<noteq> b) ys) = length ys - count_list ys a" for a
    by (induction ys) (auto simp: Suc_diff_le count_le_length)
  then show ?thesis by (simp add: length_concat comp_def)
qed

lemma sources_mesh:
  "length (filter (\<lambda>e. fst e = p) (concat (map (\<lambda>a. map (Pair a) (filter (\<lambda>b. a \<noteq> b) ys)) xs)))
     = count_list xs p * (length ys - count_list ys p)"
proof -
  have *: "length (filter (\<lambda>b. a \<noteq> b) ys) = length ys - count_list ys a" for a
    by (induction ys) (auto simp: Suc_diff_le count_le_length)
  show ?thesis
    by (induction xs) (auto simp: filter_map comp_def *)
qed

lemma targets_block:
  "length (filter (\<lambda>e. snd e = p) (map (Pair a) (filter (\<lambda>b. a \<noteq> b) ys)))
     = (if a = p then 0 else count_list ys p)"
  by (induction ys) auto

lemma targets_mesh:
  "length (filter (\<lambda>e. snd e = p) (concat (map (\<lambda>a. map (Pair a) (filter (\<lambda>b. a \<noteq> b) ys)) xs)))
     = (length xs - count_list xs p) * count_list ys p"
proof (induction xs)
  case Nil show ?case by simp
next
  case (Cons a xs)
  have "length (filter (\<lambda>e. snd e = p)
          (concat (map (\<lambda>a. map (Pair a) (filter (\<lambda>b. a \<noteq> b) ys)) (a # xs))))
        = (if a = p then 0 else count_list ys p) + (length xs - count_list xs p) * count_list ys p"
    using Cons targets_block [of p a ys] by simp
  then show ?case
    by (simp add: Suc_diff_le count_le_length)
qed

lemma count_distinct: "distinct xs \<Longrightarrow> x \<in> set xs \<Longrightarrow> count_list xs x = 1"
  by (induction xs) auto

lemma length_edges:
  assumes "distinct (map fst peers)"
  shows "length (edges (generateNetworkGraph peers)) = length peers * (length peers - 1)"
proof -
  have "(\<Sum>a\<leftarrow>xs. length ys - count_list ys a) = length xs * (length ys - 1)"
    if "set xs \<subseteq> set ys" "distinct ys" for xs ys :: "string list"
    using that by (induction xs) (auto simp: count_distinct)
  from this [of "map fst peers" "map fst peers"] assms
  have "(\<Sum>a\<leftarrow>map fst peers. length (map fst peers) - count_list (map fst peers) a)
          = length peers * (length peers - 1)"
    by simp
  then show ?thesis
    by (simp only: edges_ids length_mesh)
qed

lemma leaving_mesh:
  assumes "distinct (map fst peers)" and "p \<in> fst ` set peers"
  shows "length (filter (\<lambda>e. fst e = p) (edges (generateNetworkGraph peers))) = length peers - 1"
proof -
  let ?ids = "map fst peers"
  have "length (filter (\<lambda>e. fst e = p) (edges (generateNetworkGraph peers)))
        = count_list ?ids p * (length ?ids - count_list ?ids p)"
    by (simp only: edges_ids sources_mesh)
  moreover have "count_list ?ids p = 1"
    using assms by (simp add: count_distinct)
  ultimately show ?thesis by simp
qed

lemma reaching_mesh:
  assumes "distinct (map fst peers)" and "p \<in> fst ` set peers"
  shows "length (filter (\<lambda>e. snd e = p) (edges (generateNetworkGraph peers))) = length peers - 1"
proof -
  let ?ids = "map fst peers"
  have "length (filter (\<lambda>e. snd e = p) (edges (generateNetworkGraph peers)))
        = (length ?ids - count_list ?ids p) * count_list ?ids p"
    by (simp only: edges_ids targets_mesh)
  moreover have "count_list ?ids p = 1"
    using assms by (simp add: count_distinct)
  ultimately show ?thesis by simp
qed

lemma cnt_mesh:
  assumes "distinct (map fst peers)" and "p \<in> fst ` set peers"
  shows "cnt (connectionCounts (edges (generateNetworkGraph peers))) p = 2 * (length peers - 1)"
  by (simp add: cnt_connectionCounts leaving_mesh [OF assms] reaching_mesh [OF assms])

lemma endpoints_edges:
  "fst ` set (edges (generateNetworkGraph peers)) \<union> snd ` set (edges (generateNetworkGraph peers))
     \<subseteq> fst ` set peers"
  by (force simp: edges_ids)

lemma not_gt_div: "\<not> js_gt (Fin 0) (js_div a b)"
  by (simp add: js_div_def not_less)

lemma central_set:
  "set (findCentralPeers (generateNetworkGraph peers)) =
     {p \<in> fst ` set peers.
        js_gt (Fin (of_nat (cnt (connectionCounts (edges (generateNetworkGraph peers))) p)))
              (js_div (length (edges (generateNetworkGraph peers))) (length (nodes (generateNetworkGraph peers))))}"
  (is "?L = ?R")
proof -
  let ?es = "edges (generateNetworkGraph peers)"
  let ?m = "connectionCounts ?es"
  let ?avg = "js_div (length ?es) (length (nodes (generateNetworkGraph peers)))"
  have d: "distinct (map fst ?m)"
    unfolding connectionCounts_def by (rule fold_distinct) simp
  have k: "fst ` set ?m = fst ` set ?es \<union> snd ` set ?es"
    unfolding connectionCounts_def by (simp add: fold_keys)
  have L: "?L = {p. \<exists>n. (p, n) \<in> set ?m \<and> js_gt (Fin (of_nat n)) ?avg}"
    by (auto simp: findCentralPeers_def Let_def image_iff)
  have m: "(p, n) \<in> set ?m \<longleftrightarrow> map_of ?m p = Some n" for p n
    using d by simp
  show ?thesis
  proof (rule set_eqI)
    fix p
    show "p \<in> ?L \<longleftrightarrow> p \<in> ?R"
    proof (cases "map_of ?m p")
      case None
      then have "cnt ?m p = 0" by (simp add: cnt_def)
      then show ?thesis using None by (simp add: L m not_gt_div)
    next
      case (Some n)
      then have "p \<in> fst ` set ?m" by (metis map_of_eq_None_iff option.distinct(1))
      then have "p \<in> fst ` set peers" using k endpoints_edges [of peers] by blast
      moreover have "cnt ?m p = n" using Some by (simp add: cnt_def)
      ultimately show ?thesis using Some by (simp add: L m)
    qed
  qed
qed

lemma central_distinct: "distinct (findCentralPeers g)"
proof -
  have "distinct (map fst (connectionCounts (edges g)))"
    unfolding connectionCounts_def by (rule fold_distinct) simp
  then show ?thesis
    by (simp add: findCentralPeers_def Let_def distinct_map_filter)
qed

lemma card_ordered_pairs:
  assumes "finite S"
  shows "card {(p, q). p \<in> S \<and> q \<in> S \<and> p \<noteq> q} = card S * (card S - 1)"
proof -
  have e: "{(p, q). p \<in> S \<and> q \<in> S \<and> p \<noteq> q} = S \<times> S - (\<lambda>p. (p, p)) ` S"
    by auto
  have i: "card ((\<lambda>p. (p, p)) ` S) = card S"
    by (rule card_image) (simp add: inj_on_def)
  have "card (S \<times> S - (\<lambda>p. (p, p)) ` S) = card (S \<times> S) - card ((\<lambda>p. (p, p)) ` S)"
    using assms by (intro card_Diff_subset) auto
  then show ?thesis
    by (simp add: e i card_cartesian_product diff_mult_distrib2)
qed

lemma gt_mesh:
  "js_gt (Fin (of_nat (2 * (n - 1)))) (js_div (n * (n - 1)) n) \<longleftrightarrow> 2 \<le> n"
proof (cases n)
  case 0
  then show ?thesis by (simp add: js_div_def)
next
  case (Suc m)
  have nz: "(of_nat (Suc m) :: rat) \<noteq> 0"
    by simp
  have "(of_nat (Suc m * m) :: rat) / of_nat (Suc m)
        = (of_nat (Suc m) * of_nat m) / of_nat (Suc m)"
    by (simp only: of_nat_mult)
  also have "\<dots> = of_nat m"
    by (rule nonzero_mult_div_cancel_left [OF nz])
  finally have "(of_nat (Suc m * m) :: rat) / of_nat (Suc m) = of_nat m" .
  then have "js_div (n * (n - 1)) n = Fin (of_nat m)"
    unfolding Suc js_div_def by (simp del: of_nat_Suc of_nat_mult mult_Suc)
  moreover have "(of_nat m :: rat) < of_nat (2 * m) \<longleftrightarrow> 0 < m"
    by (simp only: of_nat_less_iff) simp
  ultimately show ?thesis
    using Suc by (auto simp del: of_nat_mult)
qed

lemma js_div_mult: "0 < n \<Longrightarrow> js_div (k * n) n = Fin (of_nat k)"
proof -
  assume "0 < n"
  then have nz: "(of_nat n :: rat) \<noteq> 0"
    by simp
  have "(of_nat (k * n) :: rat) / of_nat n = (of_nat k * of_nat n) / of_nat n"
    by (simp only: of_nat_mult)
  also have "\<dots> = of_nat k"
    by (rule nonzero_mult_div_cancel_right [OF nz])
  finally show ?thesis
    using \<open>0 < n\<close> unfolding js_div_def by (simp del: of_nat_mult)
qed

lemma no_peer_above_average:
  assumes "\<forall>p \<in> set ps. count p = k"
  shows "spec_centralPeers count ps = []"
proof (cases ps)
  case Nil
  then show ?thesis by (simp add: spec_centralPeers_def)
next
  case (Cons a as)
  have "sum_list (map count ps) = k * length ps"
    using assms by (induction ps) auto
  moreover have "0 < length ps"
    using Cons by simp
  ultimately have "js_div (sum_list (map count ps)) (length ps) = Fin (of_nat k)"
    by (simp only: js_div_mult)
  then show ?thesis
    using assms by (simp add: spec_centralPeers_def filter_empty_conv)
qed

text \<open>
  C10. For known peers, each held once by the \<open>Map\<close>, \<open>totalPeers\<close> is their number,
  \<open>totalConnections\<close> the number \<open>n * (n - 1)\<close> of ordered pairs of distinct peers and
  \<open>averageConnections\<close> their quotient \<open>n - 1\<close>. In the full mesh every peer has the
  same connection count: \<open>n - 1\<close> edges leave it, which is exactly
  \<open>averageConnections\<close>, and the loop of \<open>findCentralPeers\<close>, which counts both ends of
  every edge, gives every peer \<open>2 * (n - 1)\<close>. So no peer has a count above the average
  of the counts, whichever of the two is taken as the connection count. Yet with two or
  more peers \<open>centralPeers\<close> holds every peer, once each: the loop compares counts that
  take both ends of an edge with an average that takes one.
\<close>

theorem analyzeTopology_every_peer_central:
  assumes "distinct (map fst peers)" and "2 \<le> length peers"
  shows "totalPeers (analyzeTopology peers) = length peers
       \<and> totalConnections (analyzeTopology peers)
           = card {(p, q). p \<in> fst ` set peers \<and> q \<in> fst ` set peers \<and> p \<noteq> q}
       \<and> totalConnections (analyzeTopology peers) = length peers * (length peers - 1)
       \<and> averageConnections (analyzeTopology peers)
           = js_div (totalConnections (analyzeTopology peers)) (totalPeers (analyzeTopology peers))
       \<and> averageConnections (analyzeTopology peers) = Fin (of_nat (length peers - 1))
       \<and> (\<forall>p \<in> fst ` set peers.
             length (filter (\<lambda>e. fst e = p) (edges (generateNetworkGraph peers)))
               = length peers - 1)
       \<and> (\<forall>p \<in> fst ` set peers.
             cnt (connectionCounts (edges (generateNetworkGraph peers))) p
               = 2 * (length peers - 1))
       \<and> spec_centralPeers
            (\<lambda>p. length (filter (\<lambda>e. fst e = p) (edges (generateNetworkGraph peers))))
            (map fst peers) = []
       \<and> spec_centralPeers (cnt (connectionCounts (edges (generateNetworkGraph peers))))
            (map fst peers) = []
       \<and> set (centralPeers (analyzeTopology peers)) = fst ` set peers
       \<and> distinct (centralPeers (analyzeTopology peers))"
proof -
  let ?g = "generateNetworkGraph peers"
  let ?n = "length peers"
  have n: "length (nodes ?g) = ?n"
    by (simp add: generateNetworkGraph_def)
  have e: "length (edges ?g) = ?n * (?n - 1)"
    by (rule length_edges [OF assms(1)])
  have "card (fst ` set peers) = ?n"
    using assms(1) distinct_card [of "map fst peers"] by simp
  with card_ordered_pairs [of "fst ` set peers"]
  have c: "card {(p, q). p \<in> fst ` set peers \<and> q \<in> fst ` set peers \<and> p \<noteq> q} = ?n * (?n - 1)"
    by simp
  have a: "js_div (?n * (?n - 1)) ?n = Fin (of_nat (?n - 1))"
  proof -
    have "0 < ?n" using assms(2) by (cases peers) simp_all
    from js_div_mult [OF this, of "?n - 1"] show ?thesis
      by (simp only: mult.commute)
  qed
  have lv: "\<forall>p \<in> fst ` set peers. length (filter (\<lambda>e. fst e = p) (edges ?g)) = ?n - 1"
    using leaving_mesh [OF assms(1)] by blast
  have cc: "\<forall>p \<in> fst ` set peers. cnt (connectionCounts (edges ?g)) p = 2 * (?n - 1)"
    using cnt_mesh [OF assms(1)] by blast
  have s1: "spec_centralPeers (\<lambda>p. length (filter (\<lambda>e. fst e = p) (edges ?g))) (map fst peers) = []"
    by (rule no_peer_above_average [where k = "?n - 1"]) (use lv in simp)
  have s2: "spec_centralPeers (cnt (connectionCounts (edges ?g))) (map fst peers) = []"
    by (rule no_peer_above_average [where k = "2 * (?n - 1)"]) (use cc in simp)
  have s: "set (findCentralPeers ?g) =
           {p \<in> fst ` set peers.
              js_gt (Fin (of_nat (cnt (connectionCounts (edges ?g)) p)))
                    (js_div (length (edges ?g)) (length (nodes ?g)))}"
    by (rule central_set)
  have x: "set (findCentralPeers ?g) = fst ` set peers"
  proof -
    have "set (findCentralPeers ?g) =
          {p \<in> fst ` set peers.
             js_gt (Fin (of_nat (2 * (?n - 1)))) (js_div (?n * (?n - 1)) ?n)}"
      unfolding s n e
    proof (rule Collect_cong)
      fix p
      show "(p \<in> fst ` set peers \<and>
             js_gt (Fin (of_nat (cnt (connectionCounts (edges ?g)) p))) (js_div (?n * (?n - 1)) ?n))
          = (p \<in> fst ` set peers \<and>
             js_gt (Fin (of_nat (2 * (?n - 1)))) (js_div (?n * (?n - 1)) ?n))"
      proof (cases "p \<in> fst ` set peers")
        case True
        with cc have "cnt (connectionCounts (edges ?g)) p = 2 * (?n - 1)" by blast
        then show ?thesis by (simp only:)
      next
        case False
        then show ?thesis by (simp only:) simp
      qed
    qed
    then show ?thesis
      using assms(2) by (simp only: gt_mesh) simp
  qed
  have t: "totalPeers (analyzeTopology peers) = ?n"
    by (simp add: analyzeTopology_def Let_def n)
  have u: "totalConnections (analyzeTopology peers) = ?n * (?n - 1)"
    by (simp add: analyzeTopology_def Let_def e)
  have v: "averageConnections (analyzeTopology peers) = js_div (?n * (?n - 1)) ?n"
    by (simp add: analyzeTopology_def Let_def e n)
  have w: "centralPeers (analyzeTopology peers) = findCentralPeers ?g"
    by (simp add: analyzeTopology_def Let_def)
  show ?thesis
    unfolding t u v w c
    using a lv cc s1 s2 x central_distinct [of ?g] by (intro conjI) simp_all
qed

theorem analyzeTopology_every_peer_central_witness:
  "distinct (map fst [(''a'', \<lparr>peer_id = ''a'', url = ''u'', lastSeen = 0\<rparr>),
                      (''b'', \<lparr>peer_id = ''b'', url = ''v'', lastSeen = 1\<rparr>)])
   \<and> 2 \<le> length [(''a'', \<lparr>peer_id = ''a'', url = ''u'', lastSeen = 0\<rparr>),
                   (''b'', \<lparr>peer_id = ''b'', url = ''v'', lastSeen = 1\<rparr>)]
   \<and> analyzeTopology [(''a'', \<lparr>peer_id = ''a'', url = ''u'', lastSeen = 0\<rparr>),
                       (''b'', \<lparr>peer_id = ''b'', url = ''v'', lastSeen = 1\<rparr>)]
     = \<lparr>totalPeers = 2, totalConnections = 2, averageConnections = Fin 1,
        centralPeers = [''a'', ''b'']\<rparr>
   \<and> spec_centralPeers
        (cnt (connectionCounts (edges (generateNetworkGraph
           [(''a'', \<lparr>peer_id = ''a'', url = ''u'', lastSeen = 0\<rparr>),
            (''b'', \<lparr>peer_id = ''b'', url = ''v'', lastSeen = 1\<rparr>)]))))
        (map fst [(''a'', \<lparr>peer_id = ''a'', url = ''u'', lastSeen = 0\<rparr>),
                  (''b'', \<lparr>peer_id = ''b'', url = ''v'', lastSeen = 1\<rparr>)]) = []
   \<and> set (centralPeers (analyzeTopology
            [(''a'', \<lparr>peer_id = ''a'', url = ''u'', lastSeen = 0\<rparr>),
             (''b'', \<lparr>peer_id = ''b'', url = ''v'', lastSeen = 1\<rparr>)]))
     = {''a'', ''b''}"
proof -
  let ?P = "[(''a'', \<lparr>peer_id = ''a'', url = ''u'', lastSeen = 0\<rparr>),
             (''b'', \<lparr>peer_id = ''b'', url = ''v'', lastSeen = 1\<rparr>)]"
  have d: "distinct (map fst ?P)"
    by simp
  have l: "2 \<le> length ?P"
    by simp
  have v: "analyzeTopology ?P
           = \<lparr>totalPeers = 2, totalConnections = 2, averageConnections = Fin 1,
              centralPeers = [''a'', ''b'']\<rparr>"
    by (simp add: analyzeTopology_def generateNetworkGraph_def findCentralPeers_def
        connectionCounts_def bump_def js_div_def Let_def)
  from analyzeTopology_every_peer_central [OF d l]
  have "spec_centralPeers (cnt (connectionCounts (edges (generateNetworkGraph ?P)))) (map fst ?P) = []"
    and "set (centralPeers (analyzeTopology ?P)) = fst ` set ?P"
    by blast+
  then have "spec_centralPeers (cnt (connectionCounts (edges (generateNetworkGraph ?P)))) (map fst ?P) = []"
    and "set (centralPeers (analyzeTopology ?P)) = {''a'', ''b''}"
    by simp_all
  with d l v show ?thesis
    by blast
qed

section \<open>Properties of ComponentRegistry\<close>

lemma getComponentPath_parseAddress:
  "getComponentPath B (parseAddress address) = Inl (TypeError ''Cannot read properties of undefined'')"
  by (simp add: getComponentPath_def parseAddress_def Let_def js_get_def Object_prototype_def)

text \<open>
  C7. \<open>parseAddress\<close> returns an object with the fields \<open>author\<close>, \<open>id\<close> and \<open>version\<close>
  only; \<open>getComponentPath\<close> reads \<open>metadata.acl.type\<close> of it, where \<open>metadata.acl\<close> is
  \<open>undefined\<close>. So for every address, key pair, store and registry \<open>getComponent\<close> throws
  a \<open>TypeError\<close> and leaves the registry and the store as they were: it reads nothing
  from the store, and the ACL type of the stored package plays no part.
\<close>

theorem getComponent_throws_before_read:
  "map fst (spread (parseAddress address)) = [''author'', ''id'', ''version'']
   \<and> js_get B (parseAddress address) ''acl'' = Undefined
   \<and> getComponentPath B (parseAddress address)
       = Inl (TypeError ''Cannot read properties of undefined'')
   \<and> getComponent P C B address userPair R
       = (Inl (TypeError ''Cannot read properties of undefined''), R)"
  by (simp add: getComponent_def getComponentPath_parseAddress)
     (simp add: parseAddress_def Let_def js_get_def Object_prototype_def)

lemma publish_public:
  "publishComponent memory_store C B
      (Obj [(''metadata'', metadata_of i v a (Obj [(''type'', Str ''public'')]) sg),
            (''code'', code), (''state'', Undefined)])
      pair key empty_registry
   = (Inr (),
      \<lparr>gun = [(''components/public/'' @ a @ ''/'' @ i @ ''/'' @ v,
               Obj [(''metadata'',
                     metadata_of i v a (Obj [(''type'', Str ''public'')])
                       (SEA_sign C (stringify B (Obj
                          [(''metadata'', metadata_of i v a (Obj [(''type'', Str ''public'')]) sg),
                           (''code'', code)])) pair)),
                    (''code'', code), (''state'', Undefined)])],
       indexedComponents =
         [metadata_of i v a (Obj [(''type'', Str ''public'')])
            (SEA_sign C (stringify B (Obj
               [(''metadata'', metadata_of i v a (Obj [(''type'', Str ''public'')]) sg),
                (''code'', code)])) pair)],
       componentUpdates = [Obj [(''id'', Str i), (''version'', Str v), (''changes'', Arr [])]]\<rparr>)"
  by (simp add: publishComponent_def getComponentPath_def metadata_of_def js_get_def
      js_String_def memory_store_def notifyComponentUpdate_def updateSearchIndex_def Let_def
      empty_registry_def assign_property_def make_object_def)

lemma verify_published:
  "verifyComponentSignature C B
     (Obj [(''metadata'', metadata_of i v a acl sig), (''code'', code), (''state'', st)])
   = Inr (SEA_verify C
            (stringify B (Obj [(''metadata'', metadata_of i v a acl Undefined), (''code'', code)]))
            sig)"
  by (simp add: verifyComponentSignature_def metadata_of_def js_get_def assign_def Let_def)

text \<open>
  C5. The claim says that the stored signature is computed over the text of \<open>{metadata
  without its signature field, code}\<close>. \<open>publishComponent\<close> signs the text of
  \<open>{metadata, code}\<close> with the \<open>signature\<close> field \<open>sg\<close> that the metadata came with, and
  \<open>verifyComponentSignature\<close> checks the signature against the text in which the field
  is \<open>undefined\<close>. With the operations of \<open>plain_crypto\<close> and \<open>plain_builtins\<close> a package
  published with the prior signature \<open>'old'\<close> fails its own verification, and one
  published without a prior signature passes.
\<close>

theorem publish_signs_prior_signature:
  "gun (snd (publishComponent memory_store C B
               (Obj [(''metadata'', metadata_of i v a (Obj [(''type'', Str ''public'')]) sg),
                     (''code'', code), (''state'', Undefined)])
               pair key empty_registry))
   = [(''components/public/'' @ a @ ''/'' @ i @ ''/'' @ v,
       Obj [(''metadata'',
             metadata_of i v a (Obj [(''type'', Str ''public'')])
               (SEA_sign C (stringify B (Obj
                  [(''metadata'', metadata_of i v a (Obj [(''type'', Str ''public'')]) sg),
                   (''code'', code)])) pair)),
            (''code'', code), (''state'', Undefined)])]
   \<and> verifyComponentSignature C B
       (Obj [(''metadata'',
             metadata_of i v a (Obj [(''type'', Str ''public'')])
               (SEA_sign C (stringify B (Obj
                  [(''metadata'', metadata_of i v a (Obj [(''type'', Str ''public'')]) sg),
                   (''code'', code)])) pair)),
            (''code'', code), (''state'', Undefined)])
     = Inr (SEA_verify C
              (stringify B (Obj
                 [(''metadata'', metadata_of i v a (Obj [(''type'', Str ''public'')]) Undefined),
                  (''code'', code)]))
              (SEA_sign C (stringify B (Obj
                 [(''metadata'', metadata_of i v a (Obj [(''type'', Str ''public'')]) sg),
                  (''code'', code)])) pair))
   \<and> verifyComponentSignature plain_crypto plain_builtins
       (snd (hd (gun (snd (publishComponent memory_store plain_crypto plain_builtins
               (Obj [(''metadata'',
                      metadata_of ''widget'' ''1.0.0'' ''alice'' (Obj [(''type'', Str ''public'')])
                        (Str ''old'')),
                     (''code'', Str ''code''), (''state'', Undefined)])
               (Obj [(''pub'', Str ''pubP''), (''priv'', Str ''privP'')]) ''k''
               empty_registry)))))
     = Inr (Bool False)
   \<and> verifyComponentSignature plain_crypto plain_builtins
       (snd (hd (gun (snd (publishComponent memory_store plain_crypto plain_builtins
               (Obj [(''metadata'',
                      metadata_of ''widget'' ''1.0.0'' ''alice'' (Obj [(''type'', Str ''public'')])
                        Undefined),
                     (''code'', Str ''code''), (''state'', Undefined)])
               (Obj [(''pub'', Str ''pubP''), (''priv'', Str ''privP'')]) ''k''
               empty_registry)))))
     = Inr (Bool True)"
  by (simp add: publish_public verify_published)
     (simp add: plain_crypto_def plain_builtins_def metadata_of_def js_get_def)


text \<open>
  C6. A package is published with \<open>acl.type = private\<close> and \<open>allowedUsers = [pubA]\<close>; the
  store then holds it, encrypted, under the private path. The claim says that
  \<open>getComponent\<close> returns the package to a caller authenticated as \<open>pubA\<close> and fails with
  an access-denied error for \<open>pubB\<close>. In the code both calls throw the \<open>TypeError\<close> of
  \<open>getComponentPath(parseAddress(address))\<close>, before the store is read, and leave the
  registry as it was: \<open>pubA\<close> gets no package, and \<open>pubB\<close> no access-denied error.
\<close>

theorem private_getComponent_throws:
  "fst (publishComponent memory_store plain_crypto plain_builtins
          (Obj [(''metadata'', metadata_of ''widget'' ''1.0.0'' ''alice'' (private_acl ''pubA'')
                                 Undefined),
                (''code'', Str ''code''), (''state'', Undefined)])
          (Obj [(''pub'', Str ''pubP''), (''priv'', Str ''privP'')]) ''k'' empty_registry)
     = Inr ()
   \<and> map fst (gun (snd (publishComponent memory_store plain_crypto plain_builtins
          (Obj [(''metadata'', metadata_of ''widget'' ''1.0.0'' ''alice'' (private_acl ''pubA'')
                                 Undefined),
                (''code'', Str ''code''), (''state'', Undefined)])
          (Obj [(''pub'', Str ''pubP''), (''priv'', Str ''privP'')]) ''k'' empty_registry)))
     = [''components/private/alice/widget/1.0.0'']
   \<and> getComponent memory_store plain_crypto plain_builtins ''alice/widget/1.0.0''
          (Obj [(''pub'', Str ''pubA''), (''priv'', Str ''privA'')])
          (snd (publishComponent memory_store plain_crypto plain_builtins
                  (Obj [(''metadata'', metadata_of ''widget'' ''1.0.0'' ''alice''
                                         (private_acl ''pubA'') Undefined),
                        (''code'', Str ''code''), (''state'', Undefined)])
                  (Obj [(''pub'', Str ''pubP''), (''priv'', Str ''privP'')]) ''k''
                  empty_registry))
     = (Inl (TypeError ''Cannot read properties of undefined''),
        snd (publishComponent memory_store plain_crypto plain_builtins
               (Obj [(''metadata'', metadata_of ''widget'' ''1.0.0'' ''alice''
                                      (private_acl ''pubA'') Undefined),
                     (''code'', Str ''code''), (''state'', Undefined)])
               (Obj [(''pub'', Str ''pubP''), (''priv'', Str ''privP'')]) ''k''
               empty_registry))
   \<and> getComponent memory_store plain_crypto plain_builtins ''alice/widget/1.0.0''
          (Obj [(''pub'', Str ''pubB''), (''priv'', Str ''privB'')])
          (snd (publishComponent memory_store plain_crypto plain_builtins
                  (Obj [(''metadata'', metadata_of ''widget'' ''1.0.0'' ''alice''
                                         (private_acl ''pubA'') Undefined),
                        (''code'', Str ''code''), (''state'', Undefined)])
                  (Obj [(''pub'', Str ''pubP''), (''priv'', Str ''privP'')]) ''k''
                  empty_registry))
     = (Inl (TypeError ''Cannot read properties of undefined''),
        snd (publishComponent memory_store plain_crypto plain_builtins
               (Obj [(''metadata'', metadata_of ''widget'' ''1.0.0'' ''alice''
                                      (private_acl ''pubA'') Undefined),
                     (''code'', Str ''code''), (''state'', Undefined)])
               (Obj [(''pub'', Str ''pubP''), (''priv'', Str ''privP'')]) ''k''
               empty_registry))"
proof -
  let ?R = "publishComponent memory_store plain_crypto plain_builtins
              (Obj [(''metadata'', metadata_of ''widget'' ''1.0.0'' ''alice''
                                     (private_acl ''pubA'') Undefined),
                    (''code'', Str ''code''), (''state'', Undefined)])
              (Obj [(''pub'', Str ''pubP''), (''priv'', Str ''privP'')]) ''k'' empty_registry"
  have p: "fst ?R = Inr ()
           \<and> map fst (gun (snd ?R)) = [''components/private/alice/widget/1.0.0'']"
    by (simp add: publishComponent_def getComponentPath_def metadata_of_def private_acl_def
        js_get_def js_String_def memory_store_def notifyComponentUpdate_def
        updateSearchIndex_def encryptComponent_def Let_def empty_registry_def
        assign_property_def make_object_def empty_object_def Object_prototype_def)
  have g: "getComponent memory_store plain_crypto plain_builtins ''alice/widget/1.0.0'' pair R
           = (Inl (TypeError ''Cannot read properties of undefined''), R)"
    for pair and R :: "((string \<times> jsval) list) registry"
    by (simp add: getComponent_def getComponentPath_parseAddress)
  from p show ?thesis
    by (simp only: g)
qed

end
